theory Spec2Isabelle
  imports Complex_Main
begin

section \<open>Data model\<close>

text \<open>
  Document identities (\<open>_id\<close>, printed with \<open>toString()\<close>) and QR tokens are strings and
  are compared exactly: a lookup by identity finds the document whose printed identity is
  the string given. A JavaScript Number is a rational number; the rounding of
  floating-point arithmetic, NaN and the infinities are outside the model. A \<open>Date\<close> is
  its number of milliseconds.
\<close>

type_synonym ident = string
type_synonym number = rat
type_synonym time = int

text \<open>Values as \<open>JSON.parse\<close> and a request body deliver them.\<close>

datatype jsval =
    Undefined
  | Null
  | Bool bool
  | Num number
  | Str string
  | Arr "jsval list"
  | Obj "(string \<times> jsval) list"

text \<open>Truthiness, as \<open>!x\<close> and \<open>x || y\<close> read it.\<close>

fun truthy :: "jsval \<Rightarrow> bool" where
  "truthy Undefined = False"
| "truthy Null = False"
| "truthy (Bool b) = b"
| "truthy (Num n) = (n \<noteq> 0)"
| "truthy (Str s) = (s \<noteq> [])"
| "truthy (Arr xs) = True"
| "truthy (Obj kvs) = True"

datatype error =
    UserNotFound
  | GymNotFound
  | InsufficientPoints
  | ValidationError "string list"
  | StorageError
  | TypeError
  | CastError
  | EncodingError
  | InvalidQRData
  | InvalidOrExpiredQR
  | NotEnoughPoints
  | PointsNotPositive
  | RequestInvalid
  | NotAuthorized
  | EmailExists
  | InvalidCredentials
  | AccountDisabled
  | NotAuthenticated
  | TokenInvalid
  | TokenExpired
  | AuthenticationError
  | UserIdRequired
  | NotAdminOrGym

text \<open>
  Property access \<open>v.k\<close>: a TypeError on \<open>null\<close> and \<open>undefined\<close>, the stored value on an
  object that has the key, \<open>undefined\<close> otherwise (the keys read below, \<open>id\<close> and
  \<open>gymId\<close>, are no built-in property of a string, number, boolean or array).
\<close>

fun getProp :: "jsval \<Rightarrow> string \<Rightarrow> error + jsval" where
  "getProp Undefined k = Inl TypeError"
| "getProp Null k = Inl TypeError"
| "getProp (Obj kvs) k = (case map_of kvs k of None \<Rightarrow> Inr Undefined | Some v \<Rightarrow> Inr v)"
| "getProp v k = Inr Undefined"

text \<open>The roles of \<open>config/roles\<close>.\<close>

definition SUPER_ADMIN :: string where "SUPER_ADMIN = ''super_admin''"
definition ADMIN :: string where "ADMIN = ''admin''"
definition GYM :: string where "GYM = ''gym''"
definition USER :: string where "USER = ''user''"

definition ROLES :: "string list" where
  "ROLES = [SUPER_ADMIN, ADMIN, GYM, USER]"

text \<open>
  A user document. \<open>u_password\<close> is the stored hash. The reset token of the schema,
  which nothing reads or writes, is left out.
\<close>

record user =
  u_id :: ident
  u_name :: string
  u_email :: string
  u_password :: string
  u_role :: string
  u_points :: number
  u_assignedGyms :: "ident list"
  u_phone :: "string option"
  u_address :: "jsval option"
  u_profilePicture :: "string option"
  u_isActive :: bool
  u_lastLogin :: "time option"

text \<open>
  \<open>qrCode\<close> is a nested path of \<open>GymSchema\<close> with the optional fields \<open>code\<close> and
  \<open>expiresAt\<close>. A gym document of the model carries the object whether or not a session
  was issued: \<open>Some\<close> of a record whose fields are \<open>None\<close> when none was. \<open>None\<close> is an
  object that has no \<open>qrCode\<close> at all, which the guards \<open>gym.qrCode &&\<close> and
  \<open>!this.qrCode\<close> provide for.
\<close>

record qrcode =
  code :: "string option"
  expiresAt :: "time option"

record location =
  l_address :: string
  l_city :: string
  l_state :: string
  l_zipCode :: string
  l_country :: string
  l_coordinates :: "jsval option"

text \<open>
  A gym document. The fields \<open>pointsEarned\<close>, \<open>photos\<close> and \<open>rating\<close> of the schema,
  which nothing reads or writes, are left out.
\<close>

record gym =
  g_id :: ident
  g_name :: string
  g_description :: "string option"
  g_location :: location
  pointsRequired :: number
  g_admins :: "ident list"
  qrCode :: "qrcode option"
  g_contactInfo :: "jsval option"
  g_openingHours :: "jsval option"
  g_amenities :: "jsval option"
  g_isActive :: bool

datatype status = PENDING | COMPLETED | FAILED | CANCELLED

record transaction =
  t_id :: ident
  t_userId :: ident
  t_gymId :: "ident option"
  t_points :: number
  t_type :: string
  t_description :: string
  t_status :: status
  t_metadata :: "(string \<times> jsval) list"
  t_createdBy :: "ident option"

text \<open>The argument object of \<open>Transaction.createTransaction\<close>.\<close>

record transactionData =
  d_userId :: ident
  d_gymId :: "ident option"
  d_points :: number
  d_type :: string
  d_description :: "string option"
  d_metadata :: "(string \<times> jsval) list"
  d_createdBy :: "ident option"

text \<open>The three collections.\<close>

record store =
  users :: "user list"
  gyms :: "gym list"
  transactions :: "transaction list"

definition findUserById :: "user list \<Rightarrow> ident \<Rightarrow> user option" where
  "findUserById us i = find (\<lambda>u. u_id u = i) us"

definition findGymById :: "gym list \<Rightarrow> ident \<Rightarrow> gym option" where
  "findGymById gs i = find (\<lambda>g. g_id g = i) gs"

text \<open>Saving a document replaces the stored document of the same identity.\<close>

definition replaceUser :: "user \<Rightarrow> user list \<Rightarrow> user list" where
  "replaceUser u us = map (\<lambda>v. if u_id v = u_id u then u else v) us"

definition replaceGym :: "gym \<Rightarrow> gym list \<Rightarrow> gym list" where
  "replaceGym g gs = map (\<lambda>h. if g_id h = g_id g then g else h) gs"

definition replaceTransaction :: "transaction \<Rightarrow> transaction list \<Rightarrow> transaction list" where
  "replaceTransaction t ts = map (\<lambda>r. if t_id r = t_id t then t else r) ts"

text \<open>The balance of an account, as a read of the store sees it.\<close>

definition balance :: "store \<Rightarrow> ident \<Rightarrow> number option" where
  "balance s i = map_option u_points (findUserById (users s) i)"

section \<open>Schema validation\<close>

text \<open>
  \<open>TransactionSchema\<close>: \<open>gymId\<close> is required, \<open>points\<close> has \<open>min: 1\<close>, \<open>type\<close> is one of
  EARN and SPEND. The result lists the paths that fail.
\<close>

definition validateTransaction :: "transaction \<Rightarrow> string list" where
  "validateTransaction t =
     (if t_gymId t = None then [''gymId''] else []) @
     (if t_points t < 1 then [''points''] else []) @
     (if t_type t = ''EARN'' \<or> t_type t = ''SPEND'' then [] else [''type''])"

text \<open>
  \<open>UserSchema\<close>: \<open>name\<close> is required, \<open>role\<close> is one of the roles, \<open>points\<close> has \<open>min: 0\<close>.
  The format and uniqueness of the e-mail address are decided outside the source and
  are the parameter \<open>emailOk\<close>.
\<close>

definition validateUser :: "(string \<Rightarrow> bool) \<Rightarrow> user \<Rightarrow> string list" where
  "validateUser emailOk u =
     (if u_name u = [] then [''name''] else []) @
     (if emailOk (u_email u) then [] else [''email'']) @
     (if u_role u \<in> set ROLES then [] else [''role'']) @
     (if u_points u < 0 then [''points''] else [])"

section \<open>The ledger: Transaction.createTransaction\<close>

text \<open>
  The storage calls of the function, in the order in which it makes them. The parameter
  \<open>fails\<close> says which of them the storage rejects; \<open>newId\<close> is the identity the
  new record gets, and the insert is rejected when a stored record has it already.
\<close>

datatype step = FindUser | CreateRecord | SaveUser | SaveRecord | Commit

text \<open>The document that \<open>this.create\<close> receives.\<close>

definition newRecord :: "ident \<Rightarrow> transactionData \<Rightarrow> transaction" where
  "newRecord newId td =
     \<lparr> t_id = newId, t_userId = d_userId td, t_gymId = d_gymId td,
       t_points = d_points td, t_type = d_type td,
       t_description = (case d_description td of None \<Rightarrow> [] | Some d \<Rightarrow> d),
       t_status = PENDING, t_metadata = d_metadata td,
       t_createdBy = d_createdBy td \<rparr>"

text \<open>\<open>this.create([...], { session })\<close>: validation, then the insert.\<close>

definition createRecord ::
  "(step \<Rightarrow> bool) \<Rightarrow> ident \<Rightarrow> store \<Rightarrow> transactionData \<Rightarrow> error + (store \<times> transaction)" where
  "createRecord fails newId s td =
     (let t = newRecord newId td
      in if validateTransaction t \<noteq> [] then Inl (ValidationError (validateTransaction t))
         else if fails CreateRecord \<or> newId \<in> t_id ` set (transactions s) then Inl StorageError
         else Inr (s\<lparr> transactions := transactions s @ [t] \<rparr>, t))"

text \<open>The update of \<open>user.points\<close> by the type of the transaction.\<close>

definition updatePoints :: "user \<Rightarrow> transactionData \<Rightarrow> error + user" where
  "updatePoints usr td =
     (if d_type td = ''EARN'' then Inr (usr\<lparr> u_points := u_points usr + d_points td \<rparr>)
      else if d_type td = ''SPEND'' then
        (if u_points usr < d_points td then Inl InsufficientPoints
         else Inr (usr\<lparr> u_points := u_points usr - d_points td \<rparr>))
      else Inr usr)"

text \<open>
  \<open>user.save({ session })\<close>. Only \<open>points\<close> of the user was modified, so the save
  validates that path.
\<close>

definition saveUser :: "(step \<Rightarrow> bool) \<Rightarrow> store \<Rightarrow> user \<Rightarrow> error + store" where
  "saveUser fails s usr =
     (if u_points usr < 0 then Inl (ValidationError [''points''])
      else if fails SaveUser then Inl StorageError
      else Inr (s\<lparr> users := replaceUser usr (users s) \<rparr>))"

text \<open>The record becomes COMPLETED and is saved.\<close>

definition completeRecord ::
  "(step \<Rightarrow> bool) \<Rightarrow> store \<Rightarrow> transaction \<Rightarrow> error + (store \<times> transaction)" where
  "completeRecord fails s t =
     (let t' = t\<lparr> t_status := COMPLETED \<rparr>
      in if fails SaveRecord then Inl StorageError
         else Inr (s\<lparr> transactions := replaceTransaction t' (transactions s) \<rparr>, t'))"

text \<open>
  The body of the \<open>try\<close> block. It works on the session's view of the store and
  returns that view and the record, or the error it throws.
\<close>

definition transactionBody ::
  "(step \<Rightarrow> bool) \<Rightarrow> ident \<Rightarrow> store \<Rightarrow> transactionData \<Rightarrow> error + (store \<times> transaction)" where
  "transactionBody fails newId s td =
     (if fails FindUser then Inl StorageError
      else
        (case findUserById (users s) (d_userId td) of
           None \<Rightarrow> Inl UserNotFound
         | Some usr \<Rightarrow>
             (case createRecord fails newId s td of
                Inl e \<Rightarrow> Inl e
              | Inr (s1, t) \<Rightarrow>
                  (case updatePoints usr td of
                     Inl e \<Rightarrow> Inl e
                   | Inr usr' \<Rightarrow>
                       (case saveUser fails s1 usr' of
                          Inl e \<Rightarrow> Inl e
                        | Inr s2 \<Rightarrow>
                            (case completeRecord fails s2 t of
                               Inl e \<Rightarrow> Inl e
                             | Inr (s3, t') \<Rightarrow>
                                 if fails Commit then Inl StorageError else Inr (s3, t')))))))"

text \<open>
  \<open>createTransaction\<close>: the session's view becomes the store when the body commits;
  the \<open>catch\<close> block aborts the session, which leaves the store as it was, and
  rethrows.
\<close>

definition createTransaction ::
  "(step \<Rightarrow> bool) \<Rightarrow> ident \<Rightarrow> store \<Rightarrow> transactionData \<Rightarrow> store \<times> (error + transaction)" where
  "createTransaction fails newId s td =
     (case transactionBody fails newId s td of
        Inl e \<Rightarrow> (s, Inl e)
      | Inr (s', t) \<Rightarrow> (s', Inr t))"

section \<open>QR sessions\<close>

text \<open>\<open>Gym.isQRCodeExpired\<close>, with the clock reading \<open>now\<close> of \<open>new Date()\<close>.\<close>

definition isQRCodeExpired :: "time \<Rightarrow> gym \<Rightarrow> bool" where
  "isQRCodeExpired now g =
     (case qrCode g of
        None \<Rightarrow> True
      | Some q \<Rightarrow> (case expiresAt q of None \<Rightarrow> True | Some e \<Rightarrow> now > e))"

text \<open>
  \<open>parseInt(process.env.QR_CODE_EXPIRY) || 24\<close>: the argument is what \<open>parseInt\<close>
  reads, \<open>None\<close> when it reads no number.
\<close>

definition expiryHours :: "int option \<Rightarrow> int" where
  "expiryHours env = (case env of None \<Rightarrow> 24 | Some h \<Rightarrow> if h = 0 then 24 else h)"

text \<open>
  \<open>d.setHours(d.getHours() + h)\<close>: the instant is read in the server's local time, \<open>h\<close>
  hours are added to the hour of that local time, and the local time that results is
  read back as an instant. \<open>tza\<close> is the offset of the server's local time from UTC in
  milliseconds: \<open>tza t True\<close> at the instant \<open>t\<close>, \<open>tza l False\<close> at the local time \<open>l\<close>.
\<close>

type_synonym zone = "time \<Rightarrow> bool \<Rightarrow> int"

definition addLocalHours :: "zone \<Rightarrow> time \<Rightarrow> int \<Rightarrow> time" where
  "addLocalHours tza t h =
     (let local = t + tza t True;
          local' = local + h * 3600000
      in local' - tza local' False)"

text \<open>
  \<open>Gym.updateQRCodeExpiry\<close>, which moves the expiry of the stored session and saves the
  gym. Nothing calls it.
\<close>

definition updateQRCodeExpiry :: "int option \<Rightarrow> zone \<Rightarrow> time \<Rightarrow> gym \<Rightarrow> error + gym" where
  "updateQRCodeExpiry env tza now g =
     (case qrCode g of
        None \<Rightarrow> Inl TypeError
      | Some q \<Rightarrow> Inr (g\<lparr> qrCode := Some (q\<lparr> expiresAt := Some (addLocalHours tza now (expiryHours env)) \<rparr>) \<rparr>))"

text \<open>The payload object of a QR code.\<close>

definition qrPayload :: "string \<Rightarrow> string \<Rightarrow> gym \<Rightarrow> jsval" where
  "qrPayload qrId timestamp g =
     Obj [(''id'', Str qrId), (''gymId'', Str (g_id g)), (''name'', Str (g_name g)),
          (''pointsRequired'', Num (pointsRequired g)), (''timestamp'', Str timestamp)]"

record qrData =
  q_code :: string
  q_data :: jsval
  q_imageUrl :: string
  q_expiresAt :: time

text \<open>
  \<open>generateGymQRCode\<close>. The token \<open>qrId\<close> is what \<open>uuidv4()\<close> returns, \<open>timestamp\<close> the
  ISO string of the first clock reading, \<open>now\<close> the second clock reading, which
  \<open>setHours\<close> moves on by the hours of the lifetime in the server's local time.
  \<open>toDataURL\<close> is the image encoder, \<open>None\<close> when it throws. The field \<open>q_data\<close> is the
  payload that \<open>JSON.stringify\<close> writes out.
\<close>

definition generateGymQRCode ::
  "int option \<Rightarrow> zone \<Rightarrow> (jsval \<Rightarrow> string option) \<Rightarrow> string \<Rightarrow> string \<Rightarrow> time \<Rightarrow> gym
     \<Rightarrow> error + qrData" where
  "generateGymQRCode env tza toDataURL qrId timestamp now g =
     (let payload = qrPayload qrId timestamp g
      in case toDataURL payload of
           None \<Rightarrow> Inl EncodingError
         | Some img \<Rightarrow>
             Inr \<lparr> q_code = qrId, q_data = payload, q_imageUrl = img,
                   q_expiresAt = addLocalHours tza now (expiryHours env) \<rparr>)"

text \<open>A string field that may be unset, as a comparison reads it.\<close>

definition strOrUndefined :: "string option \<Rightarrow> jsval" where
  "strOrUndefined x = (case x of None \<Rightarrow> Undefined | Some c \<Rightarrow> Str c)"

text \<open>The body of the \<open>try\<close> block of \<open>verifyQRCode\<close>; \<open>!==\<close> is strict inequality.\<close>

definition verifyBody :: "time \<Rightarrow> jsval \<Rightarrow> gym \<Rightarrow> error + bool" where
  "verifyBody now payload g =
     (if \<not> truthy payload then Inr False
      else
        (case getProp payload ''id'' of
           Inl e \<Rightarrow> Inl e
         | Inr pid \<Rightarrow>
             if \<not> truthy pid then Inr False
             else
               (case getProp payload ''gymId'' of
                  Inl e \<Rightarrow> Inl e
                | Inr pgid \<Rightarrow>
                    if \<not> truthy pgid then Inr False
                    else if pgid \<noteq> Str (g_id g) then Inr False
                    else if qrCode g \<noteq> None \<and> isQRCodeExpired now g then Inr False
                    else if (case qrCode g of None \<Rightarrow> False
                             | Some q \<Rightarrow> pid \<noteq> strOrUndefined (code q))
                         then Inr False
                    else Inr True)))"

text \<open>\<open>verifyQRCode\<close>: the \<open>catch\<close> block answers false.\<close>

definition verifyQRCode :: "time \<Rightarrow> jsval \<Rightarrow> gym \<Rightarrow> bool" where
  "verifyQRCode now payload g = (case verifyBody now payload g of Inl e \<Rightarrow> False | Inr b \<Rightarrow> b)"

section \<open>Controllers\<close>

text \<open>
  Every controller takes the store and returns the store it leaves and its response,
  \<open>Inl\<close> an error response.
\<close>

text \<open>
  \<open>generateQRCode\<close>: the gym's session is replaced by the new one. \<open>saveFails\<close> says
  that the storage rejects \<open>gym.save()\<close>.
\<close>

definition generateQRCode ::
  "int option \<Rightarrow> zone \<Rightarrow> (jsval \<Rightarrow> string option) \<Rightarrow> bool \<Rightarrow> string \<Rightarrow> string \<Rightarrow> time \<Rightarrow> store
     \<Rightarrow> ident \<Rightarrow> store \<times> (error + string \<times> time)" where
  "generateQRCode env tza toDataURL saveFails qrId timestamp now s gymId =
     (case findGymById (gyms s) gymId of
        None \<Rightarrow> (s, Inl GymNotFound)
      | Some g \<Rightarrow>
          (case generateGymQRCode env tza toDataURL qrId timestamp now g of
             Inl e \<Rightarrow> (s, Inl e)
           | Inr qd \<Rightarrow>
               let g' = g\<lparr> qrCode := Some \<lparr> code = Some (q_code qd), expiresAt = Some (q_expiresAt qd) \<rparr> \<rparr>
               in if saveFails then (s, Inl StorageError)
                  else (s\<lparr> gyms := replaceGym g' (gyms s) \<rparr>, Inr (q_imageUrl qd, q_expiresAt qd))))"

text \<open>
  \<open>Gym.findById\<close> on a value of the payload. The driver casts the value to a query on
  \<open>_id\<close>; the parameter \<open>cast\<close> is its reading of the value: the identities the query
  selects (a string may spell an identity otherwise than \<open>toString()\<close> prints it, an
  object may be an operator), or \<open>None\<close> when the cast throws. The first stored gym that
  the query selects is found.
\<close>

type_synonym idCast = "jsval \<Rightarrow> (ident \<Rightarrow> bool) option"

definition findGymByValue :: "idCast \<Rightarrow> gym list \<Rightarrow> jsval \<Rightarrow> error + gym option" where
  "findGymByValue cast gs v =
     (case cast v of
        None \<Rightarrow> Inl CastError
      | Some sel \<Rightarrow> Inr (find (\<lambda>g. sel (g_id g)) gs))"

record scanResult =
  r_transaction :: transaction
  r_points :: number
  r_gymName :: string
  r_pointsRequired :: number

text \<open>
  The first two steps of \<open>scanQRCode\<close>: the payload is parsed and the gym is looked up
  with the payload's own \<open>gymId\<close>. \<open>parsed\<close> is the result of \<open>JSON.parse(qrData)\<close>,
  \<open>None\<close> when it throws.
\<close>

definition resolveGym :: "idCast \<Rightarrow> store \<Rightarrow> jsval option \<Rightarrow> error + (jsval \<times> gym)" where
  "resolveGym cast s parsed =
     (case parsed of
        None \<Rightarrow> Inl InvalidQRData
      | Some payload \<Rightarrow>
          (case getProp payload ''gymId'' of
             Inl e \<Rightarrow> Inl e
           | Inr pgid \<Rightarrow>
               (case findGymByValue cast (gyms s) pgid of
                  Inl e \<Rightarrow> Inl e
                | Inr None \<Rightarrow> Inl GymNotFound
                | Inr (Some g) \<Rightarrow> Inr (payload, g))))"

text \<open>
  \<open>scanQRCode\<close>: verification, the caller's account (\<open>userId\<close>), the balance check and
  the SPEND of the gym's price through the ledger.
\<close>

definition scanQRCode ::
  "idCast \<Rightarrow> (step \<Rightarrow> bool) \<Rightarrow> ident \<Rightarrow> time \<Rightarrow> store \<Rightarrow> ident \<Rightarrow> jsval option \<Rightarrow> jsval \<Rightarrow> jsval
     \<Rightarrow> store \<times> (error + scanResult)" where
  "scanQRCode cast fails newId now s userId parsed deviceInfo location =
     (case resolveGym cast s parsed of
        Inl e \<Rightarrow> (s, Inl e)
      | Inr (payload, g) \<Rightarrow>
          if \<not> verifyQRCode now payload g then (s, Inl InvalidOrExpiredQR)
          else
            (case findUserById (users s) userId of
               None \<Rightarrow> (s, Inl UserNotFound)
             | Some usr \<Rightarrow>
                 if u_points usr < pointsRequired g then (s, Inl NotEnoughPoints)
                 else
                   (case getProp payload ''id'' of
                      Inl e \<Rightarrow> (s, Inl e)
                    | Inr pid \<Rightarrow>
                        (case createTransaction fails newId s
                                \<lparr> d_userId = u_id usr, d_gymId = Some (g_id g),
                                  d_points = pointsRequired g, d_type = ''SPEND'',
                                  d_description = Some (''Gym access: '' @ g_name g),
                                  d_metadata = [(''qrCodeId'', pid), (''deviceInfo'', deviceInfo),
                                                (''location'', location)],
                                  d_createdBy = None \<rparr> of
                           (s', Inl e) \<Rightarrow> (s', Inl e)
                         | (s', Inr t) \<Rightarrow>
                             (s', Inr \<lparr> r_transaction = t,
                                        r_points = u_points usr - pointsRequired g,
                                        r_gymName = g_name g,
                                        r_pointsRequired = pointsRequired g \<rparr>)))))"

text \<open>
  \<open>addPoints\<close> of the user controller. \<open>adminId\<close> is the identity of the caller,
  \<open>userId\<close> the account of the route, \<open>points\<close>, \<open>reason\<close> and \<open>gymId\<close> the fields of the
  body (\<open>None\<close> when the body has none), \<open>showNumber\<close> the printing of a number in the
  default description. The account is saved before the ledger is called.
\<close>

definition addPoints ::
  "(step \<Rightarrow> bool) \<Rightarrow> ident \<Rightarrow> (number \<Rightarrow> string) \<Rightarrow> store \<Rightarrow> ident \<Rightarrow> ident
     \<Rightarrow> number option \<Rightarrow> string option \<Rightarrow> string option \<Rightarrow> jsval
     \<Rightarrow> store \<times> (error + ident \<times> number \<times> number)" where
  "addPoints fails newId showNumber s adminId userId points reason gymId ip =
     (case points of
        None \<Rightarrow> (s, Inl PointsNotPositive)
      | Some p \<Rightarrow>
          if p = 0 \<or> p \<le> 0 then (s, Inl PointsNotPositive)
          else
            (case findUserById (users s) userId of
               None \<Rightarrow> (s, Inl UserNotFound)
             | Some usr \<Rightarrow>
                 let usr' = usr\<lparr> u_points := u_points usr + p \<rparr> in
                 if u_points usr' < 0 then (s, Inl (ValidationError [''points'']))
                 else
                   let s1 = s\<lparr> users := replaceUser usr' (users s) \<rparr> in
                   (case createTransaction fails newId s1
                           \<lparr> d_userId = u_id usr',
                             d_gymId = (case gymId of None \<Rightarrow> None
                                        | Some i \<Rightarrow> if i = [] then None else Some i),
                             d_points = p, d_type = ''EARN'',
                             d_description =
                               Some (case reason of
                                       None \<Rightarrow> ''Admin added '' @ showNumber p @ '' points''
                                     | Some r \<Rightarrow> if r = [] then ''Admin added '' @ showNumber p @ '' points''
                                                 else r),
                             d_metadata = [(''manual'', Bool True), (''ipAddress'', ip)],
                             d_createdBy = Some adminId \<rparr> of
                      (s2, Inl e) \<Rightarrow> (s2, Inl e)
                    | (s2, Inr t) \<Rightarrow> (s2, Inr (u_id usr', u_points usr', p)))))"

text \<open>The fields of the body of an update request, \<open>None\<close> where the body has none.\<close>

record updateBody =
  b_name :: "string option"
  b_email :: "string option"
  b_role :: "string option"
  b_points :: "number option"
  b_phone :: "string option"
  b_address :: "jsval option"
  b_profilePicture :: "string option"
  b_isActive :: "bool option"

text \<open>\<open>if (req.body.x)\<close> on a string field.\<close>

definition given :: "string option \<Rightarrow> bool" where
  "given x = (case x of None \<Rightarrow> False | Some v \<Rightarrow> v \<noteq> [])"

text \<open>
  The assignments of \<open>updateUser\<close> to the loaded user. Each is guarded by an \<open>if\<close> on the
  body and the caller and writes a field of its own, so each field is written as one
  conditional value. \<open>isAdmin\<close> is the test that the caller's role is super admin or
  admin.
\<close>

definition isAdmin :: "user \<Rightarrow> bool" where
  "isAdmin reqUser = (u_role reqUser = SUPER_ADMIN \<or> u_role reqUser = ADMIN)"

definition updateFields :: "user \<Rightarrow> user \<Rightarrow> updateBody \<Rightarrow> user" where
  "updateFields reqUser usr body =
     usr\<lparr> u_name := (if given (b_name body) then the (b_name body) else u_name usr),
          u_email := (if given (b_email body) then the (b_email body) else u_email usr),
          u_role := (if isAdmin reqUser \<and> given (b_role body) \<and>
                        (u_role reqUser = SUPER_ADMIN \<or>
                         (u_role reqUser = ADMIN \<and> the (b_role body) \<noteq> SUPER_ADMIN))
                     then the (b_role body) else u_role usr),
          u_points := (if isAdmin reqUser \<and> b_points body \<noteq> None
                       then the (b_points body) else u_points usr),
          u_phone := (if given (b_phone body) then b_phone body else u_phone usr),
          u_address := (if b_address body \<noteq> None \<and> truthy (the (b_address body))
                        then b_address body else u_address usr),
          u_profilePicture := (if given (b_profilePicture body) then b_profilePicture body
                               else u_profilePicture usr),
          u_isActive := (if isAdmin reqUser \<and> b_isActive body \<noteq> None
                         then the (b_isActive body) else u_isActive usr) \<rparr>"

text \<open>
  \<open>updateUser\<close>. \<open>reqUser\<close> is the caller, \<open>errorsEmpty\<close> the outcome of the request
  validation, \<open>userId\<close> the account of the route.
\<close>

definition updateUser ::
  "(string \<Rightarrow> bool) \<Rightarrow> bool \<Rightarrow> user \<Rightarrow> store \<Rightarrow> ident \<Rightarrow> updateBody \<Rightarrow> store \<times> (error + user)" where
  "updateUser emailOk errorsEmpty reqUser s userId body =
     (if \<not> errorsEmpty then (s, Inl RequestInvalid)
      else if u_role reqUser = USER \<and> u_id reqUser \<noteq> userId then (s, Inl NotAuthorized)
      else
        (case findUserById (users s) userId of
           None \<Rightarrow> (s, Inl UserNotFound)
         | Some usr \<Rightarrow>
             let usr' = updateFields reqUser usr body
             in if validateUser emailOk usr' \<noteq> []
                then (s, Inl (ValidationError (validateUser emailOk usr')))
                else (s\<lparr> users := replaceUser usr' (users s) \<rparr>, Inr usr')))"

section \<open>The other controllers and the authentication middleware\<close>

text \<open>
  The remaining exports that write the store. Their storage calls are taken to succeed;
  request validation is the parameter \<open>errorsEmpty\<close>, and where it has passed, the
  fields it requires are present.
\<close>

text \<open>\<open>User.findOne({ email })\<close>.\<close>

definition findUserByEmail :: "user list \<Rightarrow> string \<Rightarrow> user option" where
  "findUserByEmail us e = find (\<lambda>u. u_email u = e) us"

text \<open>
  \<open>process.env.DEFAULT_POINTS_FOR_NEW_USER || 100\<close> as the schema casts it to a Number:
  100 when the variable is unset or empty, the number it spells, or no number.
\<close>

datatype envNumber = EnvUnset | EnvNumber number | EnvOther

definition defaultPoints :: "envNumber \<Rightarrow> number option" where
  "defaultPoints env = (case env of EnvUnset \<Rightarrow> Some 100 | EnvNumber n \<Rightarrow> Some n | EnvOther \<Rightarrow> None)"

text \<open>
  \<open>User.create\<close>: the schema is validated on the document with the password as given
  (\<open>minlength: 6\<close>), the pre-save hook stores the hash of the password, and the document
  is inserted under the new identity.
\<close>

definition createUser ::
  "(string \<Rightarrow> bool) \<Rightarrow> (string \<Rightarrow> string) \<Rightarrow> ident \<Rightarrow> store \<Rightarrow> string \<Rightarrow> string \<Rightarrow> string \<Rightarrow> string
     \<Rightarrow> number option \<Rightarrow> error + (store \<times> user)" where
  "createUser emailOk hash newId s name email password role points =
     (case points of
        None \<Rightarrow> Inl (ValidationError [''points''])
      | Some p \<Rightarrow>
          let u = \<lparr> u_id = newId, u_name = name, u_email = email, u_password = password,
                    u_role = role, u_points = p, u_assignedGyms = [], u_phone = None,
                    u_address = None, u_profilePicture = None, u_isActive = True,
                    u_lastLogin = None \<rparr>;
              paths = validateUser emailOk u @ (if length password < 6 then [''password''] else [])
          in if paths \<noteq> [] then Inl (ValidationError paths)
             else if newId \<in> u_id ` set (users s) then Inl StorageError
             else Inr (s\<lparr> users := users s @ [u\<lparr> u_password := hash password \<rparr>] \<rparr>,
                       u\<lparr> u_password := hash password \<rparr>))"

text \<open>\<open>registerUser\<close>; \<open>sign\<close> is the signing of a token for an identity.\<close>

definition registerUser ::
  "(string \<Rightarrow> bool) \<Rightarrow> (string \<Rightarrow> string) \<Rightarrow> (ident \<Rightarrow> string) \<Rightarrow> envNumber \<Rightarrow> ident \<Rightarrow> bool \<Rightarrow> store
     \<Rightarrow> string \<Rightarrow> string \<Rightarrow> string \<Rightarrow> store \<times> (error + string \<times> user)" where
  "registerUser emailOk hash sign env newId errorsEmpty s name email password =
     (if \<not> errorsEmpty then (s, Inl RequestInvalid)
      else if findUserByEmail (users s) email \<noteq> None then (s, Inl EmailExists)
      else
        (case createUser emailOk hash newId s name email password USER (defaultPoints env) of
           Inl e \<Rightarrow> (s, Inl e)
         | Inr (s', u) \<Rightarrow> (s', Inr (sign (u_id u), u))))"

text \<open>\<open>registerAdmin\<close>: the role is the one of the body.\<close>

definition registerAdmin ::
  "(string \<Rightarrow> bool) \<Rightarrow> (string \<Rightarrow> string) \<Rightarrow> envNumber \<Rightarrow> ident \<Rightarrow> bool \<Rightarrow> store
     \<Rightarrow> string \<Rightarrow> string \<Rightarrow> string \<Rightarrow> string \<Rightarrow> store \<times> (error + user)" where
  "registerAdmin emailOk hash env newId errorsEmpty s name email password role =
     (if \<not> errorsEmpty then (s, Inl RequestInvalid)
      else if findUserByEmail (users s) email \<noteq> None then (s, Inl EmailExists)
      else
        (case createUser emailOk hash newId s name email password role (defaultPoints env) of
           Inl e \<Rightarrow> (s, Inl e)
         | Inr (s', u) \<Rightarrow> (s', Inr u)))"

text \<open>
  \<open>login\<close>; \<open>compare\<close> is the comparison of a password with a stored hash. The save
  has modified \<open>lastLogin\<close> only.
\<close>

definition login ::
  "(string \<Rightarrow> string \<Rightarrow> bool) \<Rightarrow> (ident \<Rightarrow> string) \<Rightarrow> time \<Rightarrow> bool \<Rightarrow> store \<Rightarrow> string \<Rightarrow> string
     \<Rightarrow> store \<times> (error + string \<times> user)" where
  "login compare sign now errorsEmpty s email password =
     (if \<not> errorsEmpty then (s, Inl RequestInvalid)
      else
        (case findUserByEmail (users s) email of
           None \<Rightarrow> (s, Inl InvalidCredentials)
         | Some usr \<Rightarrow>
             if \<not> u_isActive usr then (s, Inl AccountDisabled)
             else if \<not> compare password (u_password usr) then (s, Inl InvalidCredentials)
             else
               let usr' = usr\<lparr> u_lastLogin := Some now \<rparr>
               in (s\<lparr> users := replaceUser usr' (users s) \<rparr>, Inr (sign (u_id usr'), usr'))))"

text \<open>
  \<open>changePassword\<close> for the caller \<open>reqUserId\<close>. The account is not tested for being
  found: \<open>user.comparePassword\<close> on \<open>null\<close> is a TypeError.
\<close>

definition changePassword ::
  "(string \<Rightarrow> string \<Rightarrow> bool) \<Rightarrow> (string \<Rightarrow> string) \<Rightarrow> (ident \<Rightarrow> string) \<Rightarrow> bool \<Rightarrow> store \<Rightarrow> ident
     \<Rightarrow> string \<Rightarrow> string \<Rightarrow> store \<times> (error + string)" where
  "changePassword compare hash sign errorsEmpty s reqUserId currentPassword newPassword =
     (if \<not> errorsEmpty then (s, Inl RequestInvalid)
      else
        (case findUserById (users s) reqUserId of
           None \<Rightarrow> (s, Inl TypeError)
         | Some usr \<Rightarrow>
             if \<not> compare currentPassword (u_password usr) then (s, Inl InvalidCredentials)
             else if length newPassword < 6 then (s, Inl (ValidationError [''password'']))
             else
               let usr' = usr\<lparr> u_password := hash newPassword \<rparr>
               in (s\<lparr> users := replaceUser usr' (users s) \<rparr>, Inr (sign (u_id usr')))))"

text \<open>\<open>x.split(c)\<close> on strings.\<close>

fun splitOn :: "char \<Rightarrow> string \<Rightarrow> string list" where
  "splitOn c [] = [[]]"
| "splitOn c (x # xs) =
     (if x = c then [] # splitOn c xs
      else (case splitOn c xs of [] \<Rightarrow> [[x]] | w # ws \<Rightarrow> (x # w) # ws))"

text \<open>The token of an \<open>Authorization\<close> header that starts with \<open>Bearer\<close>.\<close>

definition bearerToken :: "string option \<Rightarrow> string option" where
  "bearerToken header =
     (case header of
        None \<Rightarrow> None
      | Some h \<Rightarrow>
          if h \<noteq> [] \<and> take 6 h = ''Bearer'' then
            (case splitOn CHR '' '' h of
               a # t # rest \<Rightarrow> if t = [] then None else Some t
             | _ \<Rightarrow> None)
          else None)"

text \<open>
  The middleware \<open>protect\<close>, which every route but registration and login passes
  first. \<open>jwtVerify\<close> is the verification of a token: the identity it was signed for,
  or the error (\<open>TokenInvalid\<close>, \<open>TokenExpired\<close>, or any other, which is answered as
  \<open>AuthenticationError\<close>). The result is the user of the request.
\<close>

definition protect ::
  "(string \<Rightarrow> error + ident) \<Rightarrow> time \<Rightarrow> store \<Rightarrow> string option \<Rightarrow> store \<times> (error + user)" where
  "protect jwtVerify now s header =
     (case bearerToken header of
        None \<Rightarrow> (s, Inl NotAuthenticated)
      | Some token \<Rightarrow>
          (case jwtVerify token of
             Inl e \<Rightarrow>
               (s, Inl (if e = TokenInvalid \<or> e = TokenExpired then e else AuthenticationError))
           | Inr uid \<Rightarrow>
               (case findUserById (users s) uid of
                  None \<Rightarrow> (s, Inl NotAuthenticated)
                | Some usr \<Rightarrow>
                    if \<not> u_isActive usr then (s, Inl AccountDisabled)
                    else if (case u_lastLogin usr of None \<Rightarrow> True | Some l \<Rightarrow> now - l > 86400000)
                    then
                      let usr' = usr\<lparr> u_lastLogin := Some now \<rparr>
                      in (s\<lparr> users := replaceUser usr' (users s) \<rparr>, Inr usr')
                    else (s, Inr usr))))"

text \<open>
  The set-up script that creates a super admin from the answers typed at the terminal
  (\<open>recreate\<close> is the answer to the question whether another one is wanted). It prints
  an error instead of throwing it.
\<close>

definition createSuperAdmin ::
  "(string \<Rightarrow> bool) \<Rightarrow> (string \<Rightarrow> string) \<Rightarrow> ident \<Rightarrow> store \<Rightarrow> string \<Rightarrow> string \<Rightarrow> string \<Rightarrow> string
     \<Rightarrow> store" where
  "createSuperAdmin emailOk hash newId s recreate name email password =
     (if find (\<lambda>u. u_role u = SUPER_ADMIN) (users s) \<noteq> None \<and> recreate \<noteq> ''y'' \<and> recreate \<noteq> ''Y''
      then s
      else if length password < 6 then s
      else
        (case createUser emailOk hash newId s name email password SUPER_ADMIN (Some 9999) of
           Inl e \<Rightarrow> s
         | Inr (s', u) \<Rightarrow> s'))"

text \<open>
  The methods \<open>hasEnoughPoints\<close>, \<open>addPoints\<close> and \<open>deductPoints\<close> of the user model,
  which write \<open>points\<close> and save the document. No controller, middleware or script calls
  them.
\<close>

definition hasEnoughPoints :: "user \<Rightarrow> number \<Rightarrow> bool" where
  "hasEnoughPoints usr requiredPoints = (u_points usr \<ge> requiredPoints)"

definition addPoints_method :: "store \<Rightarrow> user \<Rightarrow> number \<Rightarrow> error + (store \<times> user)" where
  "addPoints_method s usr pointsToAdd =
     (let usr' = usr\<lparr> u_points := u_points usr + pointsToAdd \<rparr>
      in if u_points usr' < 0 then Inl (ValidationError [''points''])
         else Inr (s\<lparr> users := replaceUser usr' (users s) \<rparr>, usr'))"

definition deductPoints :: "store \<Rightarrow> user \<Rightarrow> number \<Rightarrow> error + (store \<times> user)" where
  "deductPoints s usr pointsToDeduct =
     (if \<not> hasEnoughPoints usr pointsToDeduct then Inl InsufficientPoints
      else
        let usr' = usr\<lparr> u_points := u_points usr - pointsToDeduct \<rparr>
        in if u_points usr' < 0 then Inl (ValidationError [''points''])
           else Inr (s\<lparr> users := replaceUser usr' (users s) \<rparr>, usr'))"

text \<open>\<open>deleteUser\<close> by the caller \<open>reqUser\<close>.\<close>

definition deleteUser :: "user \<Rightarrow> store \<Rightarrow> ident \<Rightarrow> store \<times> (error + unit)" where
  "deleteUser reqUser s userId =
     (case findUserById (users s) userId of
        None \<Rightarrow> (s, Inl UserNotFound)
      | Some usr \<Rightarrow>
          if u_role usr = SUPER_ADMIN \<and> u_role reqUser \<noteq> SUPER_ADMIN then (s, Inl NotAuthorized)
          else (s\<lparr> users := filter (\<lambda>u. u_id u \<noteq> u_id usr) (users s) \<rparr>, Inr ()))"

text \<open>
  \<open>createTransaction\<close> of the transaction controller, the manual transaction, by the
  caller \<open>reqUser\<close> with the fields of the body.
\<close>

definition createTransactionRequest ::
  "(step \<Rightarrow> bool) \<Rightarrow> ident \<Rightarrow> (number \<Rightarrow> string) \<Rightarrow> bool \<Rightarrow> user \<Rightarrow> store \<Rightarrow> ident \<Rightarrow> ident \<Rightarrow> number
     \<Rightarrow> string \<Rightarrow> string option \<Rightarrow> jsval \<Rightarrow> store \<times> (error + transaction)" where
  "createTransactionRequest fails newId showNumber errorsEmpty reqUser s userId gymId points type
       description ip =
     (if \<not> errorsEmpty then (s, Inl RequestInvalid)
      else
        (case findUserById (users s) userId of
           None \<Rightarrow> (s, Inl UserNotFound)
         | Some usr \<Rightarrow>
             (case findGymById (gyms s) gymId of
                None \<Rightarrow> (s, Inl GymNotFound)
              | Some g \<Rightarrow>
                  if u_role reqUser = GYM \<and> gymId \<notin> set (u_assignedGyms reqUser)
                  then (s, Inl NotAuthorized)
                  else if type = ''SPEND'' \<and> u_points usr < points then (s, Inl NotEnoughPoints)
                  else
                    createTransaction fails newId s
                      \<lparr> d_userId = userId, d_gymId = Some gymId, d_points = points, d_type = type,
                        d_description =
                          Some (if given description then the description
                                else (if type = ''EARN'' then ''Earned'' else ''Spent'') @ '' '' @
                                     showNumber points @ '' points at '' @ g_name g),
                        d_metadata = [(''ipAddress'', ip), (''manual'', Bool True)],
                        d_createdBy = Some (u_id reqUser) \<rparr>)))"

text \<open>The fields of the body of a gym request, \<open>None\<close> where the body has none.\<close>

record locationBody =
  lb_address :: "string option"
  lb_city :: "string option"
  lb_state :: "string option"
  lb_zipCode :: "string option"
  lb_country :: "string option"
  lb_coordinates :: "jsval option"

record gymBody =
  gb_name :: "string option"
  gb_description :: "string option"
  gb_location :: "locationBody option"
  gb_pointsRequired :: "number option"
  gb_contactInfo :: "jsval option"
  gb_openingHours :: "jsval option"
  gb_amenities :: "jsval option"
  gb_isActive :: "bool option"

text \<open>\<open>if (req.body.x)\<close> on a field that is no string.\<close>

definition givenVal :: "jsval option \<Rightarrow> bool" where
  "givenVal x = (case x of None \<Rightarrow> False | Some v \<Rightarrow> truthy v)"

text \<open>\<open>GymSchema\<close>: the name and the address fields are required, \<open>pointsRequired\<close> has \<open>min: 0\<close>.\<close>

definition validateGym :: "gym \<Rightarrow> string list" where
  "validateGym g =
     (if g_name g = [] then [''name''] else []) @
     (if l_address (g_location g) = [] then [''location.address''] else []) @
     (if l_city (g_location g) = [] then [''location.city''] else []) @
     (if l_state (g_location g) = [] then [''location.state''] else []) @
     (if l_zipCode (g_location g) = [] then [''location.zipCode''] else []) @
     (if l_country (g_location g) = [] then [''location.country''] else []) @
     (if pointsRequired g < 0 then [''pointsRequired''] else [])"

text \<open>A required string of a new document: unset is read as empty and fails validation.\<close>

definition orEmpty :: "string option \<Rightarrow> string" where
  "orEmpty x = (case x of None \<Rightarrow> [] | Some v \<Rightarrow> v)"

text \<open>\<open>$addToSet\<close> on an array of identities.\<close>

definition addToSet :: "ident \<Rightarrow> ident list \<Rightarrow> ident list" where
  "addToSet i xs = (if i \<in> set xs then xs else xs @ [i])"

text \<open>
  \<open>createGym\<close> by the caller \<open>reqUser\<close>. Reading \<open>req.body.location.address\<close> of a body
  without \<open>location\<close> is a TypeError. An admin who creates a gym becomes its admin and
  gets the gym among the assigned gyms.
\<close>

definition createGym :: "ident \<Rightarrow> bool \<Rightarrow> user \<Rightarrow> store \<Rightarrow> gymBody \<Rightarrow> store \<times> (error + gym)" where
  "createGym newId errorsEmpty reqUser s body =
     (if \<not> errorsEmpty then (s, Inl RequestInvalid)
      else
        (case gb_location body of
           None \<Rightarrow> (s, Inl TypeError)
         | Some lb \<Rightarrow>
             let g = \<lparr> g_id = newId, g_name = orEmpty (gb_name body),
                       g_description = gb_description body,
                       g_location = \<lparr> l_address = orEmpty (lb_address lb), l_city = orEmpty (lb_city lb),
                                       l_state = orEmpty (lb_state lb),
                                       l_zipCode = orEmpty (lb_zipCode lb),
                                       l_country = orEmpty (lb_country lb),
                                       l_coordinates = lb_coordinates lb \<rparr>,
                       pointsRequired = (case gb_pointsRequired body of
                                           None \<Rightarrow> 10 | Some n \<Rightarrow> if n = 0 then 10 else n),
                       g_admins = (if u_role reqUser = ADMIN then [u_id reqUser] else []),
                       qrCode = Some \<lparr> code = None, expiresAt = None \<rparr>,
                       g_contactInfo = gb_contactInfo body,
                       g_openingHours = gb_openingHours body,
                       g_amenities = gb_amenities body, g_isActive = True \<rparr>
             in if validateGym g \<noteq> [] then (s, Inl (ValidationError (validateGym g)))
                else if newId \<in> g_id ` set (gyms s) then (s, Inl StorageError)
                else
                  (s\<lparr> gyms := gyms s @ [g],
                      users := (if u_role reqUser = ADMIN
                                then map (\<lambda>u. if u_id u = u_id reqUser
                                               then u\<lparr> u_assignedGyms := addToSet newId (u_assignedGyms u) \<rparr>
                                               else u) (users s)
                                else users s) \<rparr>,
                   Inr g)))"

text \<open>
  The assignments of \<open>updateGym\<close> to the loaded gym, each guarded by an \<open>if\<close> on the body
  and the caller and each to a field of its own.
\<close>

definition updateGymFields :: "user \<Rightarrow> gym \<Rightarrow> gymBody \<Rightarrow> gym" where
  "updateGymFields reqUser g body =
     g\<lparr> g_name := (if given (gb_name body) then the (gb_name body) else g_name g),
        g_description := (if given (gb_description body) then gb_description body
                          else g_description g),
        g_location :=
          (case gb_location body of
             None \<Rightarrow> g_location g
           | Some lb \<Rightarrow>
               (g_location g)
                 \<lparr> l_address := (if given (lb_address lb) then the (lb_address lb)
                                 else l_address (g_location g)),
                   l_city := (if given (lb_city lb) then the (lb_city lb)
                              else l_city (g_location g)),
                   l_state := (if given (lb_state lb) then the (lb_state lb)
                               else l_state (g_location g)),
                   l_zipCode := (if given (lb_zipCode lb) then the (lb_zipCode lb)
                                 else l_zipCode (g_location g)),
                   l_country := (if given (lb_country lb) then the (lb_country lb)
                                 else l_country (g_location g)),
                   l_coordinates := (if givenVal (lb_coordinates lb) then lb_coordinates lb
                                     else l_coordinates (g_location g)) \<rparr>),
        pointsRequired := (case gb_pointsRequired body of
                             None \<Rightarrow> pointsRequired g
                           | Some n \<Rightarrow> if n = 0 then pointsRequired g else n),
        g_contactInfo := (if givenVal (gb_contactInfo body) then gb_contactInfo body
                          else g_contactInfo g),
        g_openingHours := (if givenVal (gb_openingHours body) then gb_openingHours body
                           else g_openingHours g),
        g_amenities := (if givenVal (gb_amenities body) then gb_amenities body
                        else g_amenities g),
        g_isActive := (if u_role reqUser = SUPER_ADMIN \<and> gb_isActive body \<noteq> None
                       then the (gb_isActive body) else g_isActive g) \<rparr>"

text \<open>\<open>updateGym\<close> by the caller \<open>reqUser\<close>.\<close>

definition updateGym :: "bool \<Rightarrow> user \<Rightarrow> store \<Rightarrow> ident \<Rightarrow> gymBody \<Rightarrow> store \<times> (error + gym)" where
  "updateGym errorsEmpty reqUser s gymId body =
     (if \<not> errorsEmpty then (s, Inl RequestInvalid)
      else
        (case findGymById (gyms s) gymId of
           None \<Rightarrow> (s, Inl GymNotFound)
         | Some g \<Rightarrow>
             if u_role reqUser = ADMIN \<and> u_id reqUser \<notin> set (g_admins g) then (s, Inl NotAuthorized)
             else
               let g' = updateGymFields reqUser g body
               in if validateGym g' \<noteq> [] then (s, Inl (ValidationError (validateGym g')))
                  else (s\<lparr> gyms := replaceGym g' (gyms s) \<rparr>, Inr g')))"

text \<open>
  \<open>deleteGym\<close>: the gym is pulled from the assigned gyms of every user, then the gym
  document is deleted.
\<close>

definition deleteGym :: "store \<Rightarrow> ident \<Rightarrow> store \<times> (error + unit)" where
  "deleteGym s gymId =
     (case findGymById (gyms s) gymId of
        None \<Rightarrow> (s, Inl GymNotFound)
      | Some g \<Rightarrow>
          (s\<lparr> users := map (\<lambda>u. u\<lparr> u_assignedGyms := removeAll gymId (u_assignedGyms u) \<rparr>) (users s),
              gyms := filter (\<lambda>h. g_id h \<noteq> g_id g) (gyms s) \<rparr>,
           Inr ()))"

text \<open>\<open>assignAdmin\<close>: \<open>userId\<close> is the field of the body.\<close>

definition assignAdmin :: "store \<Rightarrow> ident \<Rightarrow> string option \<Rightarrow> store \<times> (error + unit)" where
  "assignAdmin s gymId userId =
     (if \<not> given userId then (s, Inl UserIdRequired)
      else
        (case findGymById (gyms s) gymId of
           None \<Rightarrow> (s, Inl GymNotFound)
         | Some g \<Rightarrow>
             (case findUserById (users s) (the userId) of
                None \<Rightarrow> (s, Inl UserNotFound)
              | Some usr \<Rightarrow>
                  if u_role usr \<noteq> ADMIN \<and> u_role usr \<noteq> GYM then (s, Inl NotAdminOrGym)
                  else
                    (s\<lparr> users := (if gymId \<in> set (u_assignedGyms usr) then users s
                                  else replaceUser
                                         (usr\<lparr> u_assignedGyms := u_assignedGyms usr @ [gymId] \<rparr>)
                                         (users s)),
                        gyms := (if the userId \<in> set (g_admins g) then gyms s
                                 else replaceGym (g\<lparr> g_admins := g_admins g @ [the userId] \<rparr>)
                                        (gyms s)) \<rparr>,
                     Inr ()))))"

text \<open>\<open>removeAdmin\<close>.\<close>

definition removeAdmin :: "store \<Rightarrow> ident \<Rightarrow> ident \<Rightarrow> store \<times> (error + unit)" where
  "removeAdmin s gymId userId =
     (case findGymById (gyms s) gymId of
        None \<Rightarrow> (s, Inl GymNotFound)
      | Some g \<Rightarrow>
          (case findUserById (users s) userId of
             None \<Rightarrow> (s, Inl UserNotFound)
           | Some usr \<Rightarrow>
               (s\<lparr> users := replaceUser
                               (usr\<lparr> u_assignedGyms := filter (\<lambda>i. i \<noteq> gymId) (u_assignedGyms usr) \<rparr>)
                               (users s),
                   gyms := replaceGym (g\<lparr> g_admins := filter (\<lambda>i. i \<noteq> userId) (g_admins g) \<rparr>)
                             (gyms s) \<rparr>,
                Inr ())))"

section \<open>Statements of the specification\<close>

text \<open>The first check of \<open>verifyQRCode\<close>: the shape of a payload.\<close>

definition hasShape :: "jsval \<Rightarrow> bool" where
  "hasShape payload =
     (truthy payload \<and>
      (case getProp payload ''id'' of Inl e \<Rightarrow> False | Inr v \<Rightarrow> truthy v) \<and>
      (case getProp payload ''gymId'' of Inl e \<Rightarrow> False | Inr v \<Rightarrow> truthy v))"

text \<open>The second check: the payload names the gym.\<close>

definition gymIdMatches :: "jsval \<Rightarrow> gym \<Rightarrow> bool" where
  "gymIdMatches payload g = (getProp payload ''gymId'' = Inr (Str (g_id g)))"

text \<open>A gym has a current session when a token and an expiry are stored for it.\<close>

definition hasSession :: "gym \<Rightarrow> bool" where
  "hasSession g =
     (case qrCode g of None \<Rightarrow> False | Some q \<Rightarrow> code q \<noteq> None \<and> expiresAt q \<noteq> None)"

text \<open>
  Validity of a payload in the words of the specification: (a) the payload has the
  expected shape, (b) its gym identity is the gym's, (c) the gym has a current session,
  (d) the current time is at most the session's expiry, (e) the payload's token is the
  token of that session.
\<close>

definition verifySpec :: "time \<Rightarrow> jsval \<Rightarrow> gym \<Rightarrow> bool" where
  "verifySpec now payload g =
     (hasShape payload \<and> gymIdMatches payload g \<and> hasSession g \<and>
      (case qrCode g of
         None \<Rightarrow> False
       | Some q \<Rightarrow>
           (case expiresAt q of None \<Rightarrow> False | Some e \<Rightarrow> now \<le> e) \<and>
           getProp payload ''id'' = Inr (strOrUndefined (code q))))"

text \<open>Every stored balance is non-negative.\<close>

definition nonNegative :: "store \<Rightarrow> bool" where
  "nonNegative s = list_all (\<lambda>u. 0 \<le> u_points u) (users s)"

text \<open>
  A sequence of ledger calls, each with its storage outcome, the identity of its record
  and its argument, applied one after the other.
\<close>

fun applyAll :: "store \<Rightarrow> ((step \<Rightarrow> bool) \<times> ident \<times> transactionData) list \<Rightarrow> store" where
  "applyAll s [] = s"
| "applyAll s ((fails, newId, td) # cs) = applyAll (fst (createTransaction fails newId s td)) cs"

text \<open>
  A call of an export of the controllers or of the middleware, or a run of the set-up
  script, with its inputs. \<open>ReadOnly\<close>
  stands for the exports that write nothing: the listings and lookups of users, gyms
  and transactions, \<open>getUserPoints\<close>, \<open>getQRStatus\<close>, \<open>getCurrentUser\<close>,
  \<open>refreshToken\<close>, and the checks of role, permission and assignment of the
  middleware.
\<close>

datatype request =
    RegisterUser "string \<Rightarrow> bool" "string \<Rightarrow> string" "ident \<Rightarrow> string" envNumber ident bool
      string string string
  | RegisterAdmin "string \<Rightarrow> bool" "string \<Rightarrow> string" envNumber ident bool string string string
      string
  | Login "string \<Rightarrow> string \<Rightarrow> bool" "ident \<Rightarrow> string" time bool string string
  | ChangePassword "string \<Rightarrow> string \<Rightarrow> bool" "string \<Rightarrow> string" "ident \<Rightarrow> string" bool ident
      string string
  | Protect "string \<Rightarrow> error + ident" time "string option"
  | UpdateUser "string \<Rightarrow> bool" bool user ident updateBody
  | DeleteUser user ident
  | AddPoints "step \<Rightarrow> bool" ident "number \<Rightarrow> string" ident ident "number option"
      "string option" "string option" jsval
  | CreateGym ident bool user gymBody
  | UpdateGym bool user ident gymBody
  | DeleteGym ident
  | AssignAdmin ident "string option"
  | RemoveAdmin ident ident
  | GenerateQR "int option" zone "jsval \<Rightarrow> string option" bool string string time ident
  | ScanQR idCast "step \<Rightarrow> bool" ident time ident "jsval option" jsval jsval
  | ManualTransaction "step \<Rightarrow> bool" ident "number \<Rightarrow> string" bool user ident ident number
      string "string option" jsval
  | CreateSuperAdmin "string \<Rightarrow> bool" "string \<Rightarrow> string" ident string string string string
  | ReadOnly

text \<open>The store that a call leaves.\<close>

fun perform :: "request \<Rightarrow> store \<Rightarrow> store" where
  "perform (RegisterUser emailOk hash sign env newId errorsEmpty name email password) s =
     fst (registerUser emailOk hash sign env newId errorsEmpty s name email password)"
| "perform (RegisterAdmin emailOk hash env newId errorsEmpty name email password role) s =
     fst (registerAdmin emailOk hash env newId errorsEmpty s name email password role)"
| "perform (Login compare sign now errorsEmpty email password) s =
     fst (login compare sign now errorsEmpty s email password)"
| "perform (ChangePassword compare hash sign errorsEmpty reqUserId current new) s =
     fst (changePassword compare hash sign errorsEmpty s reqUserId current new)"
| "perform (Protect jwtVerify now header) s = fst (protect jwtVerify now s header)"
| "perform (UpdateUser emailOk errorsEmpty reqUser userId body) s =
     fst (updateUser emailOk errorsEmpty reqUser s userId body)"
| "perform (DeleteUser reqUser userId) s = fst (deleteUser reqUser s userId)"
| "perform (AddPoints fails newId showNumber adminId userId points reason gymId ip) s =
     fst (addPoints fails newId showNumber s adminId userId points reason gymId ip)"
| "perform (CreateGym newId errorsEmpty reqUser body) s =
     fst (createGym newId errorsEmpty reqUser s body)"
| "perform (UpdateGym errorsEmpty reqUser gymId body) s =
     fst (updateGym errorsEmpty reqUser s gymId body)"
| "perform (DeleteGym gymId) s = fst (deleteGym s gymId)"
| "perform (AssignAdmin gymId userId) s = fst (assignAdmin s gymId userId)"
| "perform (RemoveAdmin gymId userId) s = fst (removeAdmin s gymId userId)"
| "perform (GenerateQR env tza toDataURL saveFails qrId timestamp now gymId) s =
     fst (generateQRCode env tza toDataURL saveFails qrId timestamp now s gymId)"
| "perform (ScanQR cast fails newId now userId parsed deviceInfo location) s =
     fst (scanQRCode cast fails newId now s userId parsed deviceInfo location)"
| "perform (ManualTransaction fails newId showNumber errorsEmpty reqUser userId gymId points type
       description ip) s =
     fst (createTransactionRequest fails newId showNumber errorsEmpty reqUser s userId gymId points
            type description ip)"
| "perform (CreateSuperAdmin emailOk hash newId recreate name email password) s =
     createSuperAdmin emailOk hash newId s recreate name email password"
| "perform ReadOnly s = s"

text \<open>The calls that reach the ledger and no other write of an account.\<close>

fun viaLedger :: "request \<Rightarrow> bool" where
  "viaLedger (ScanQR cast fails newId now userId parsed deviceInfo location) = True"
| "viaLedger (ManualTransaction fails newId showNumber errorsEmpty reqUser userId gymId points type
       description ip) = True"
| "viaLedger r = False"

text \<open>The administrative update and the manual grant.\<close>

fun writesAccount :: "request \<Rightarrow> bool" where
  "writesAccount (UpdateUser emailOk errorsEmpty reqUser userId body) = True"
| "writesAccount (AddPoints fails newId showNumber adminId userId points reason gymId ip) = True"
| "writesAccount r = False"

section \<open>Example data\<close>

definition member0 :: user where
  "member0 = \<lparr> u_id = ''u1'', u_name = ''Ann'', u_email = ''ann@example.org'',
       u_password = ''hash1'', u_role = USER, u_points = 5, u_assignedGyms = [],
       u_phone = None, u_address = None, u_profilePicture = None, u_isActive = True,
       u_lastLogin = None \<rparr>"

definition admin0 :: user where
  "admin0 = \<lparr> u_id = ''a1'', u_name = ''Bob'', u_email = ''bob@example.org'',
       u_password = ''hash2'', u_role = ADMIN, u_points = 100, u_assignedGyms = [],
       u_phone = None, u_address = None, u_profilePicture = None, u_isActive = True,
       u_lastLogin = None \<rparr>"

definition place0 :: location where
  "place0 = \<lparr> l_address = ''1 Main Street'', l_city = ''Oran'', l_state = ''Oran'',
       l_zipCode = ''31000'', l_country = ''DZ'', l_coordinates = None \<rparr>"

definition gym0 :: gym where
  "gym0 = \<lparr> g_id = ''g1'', g_name = ''Iron'', g_description = None, g_location = place0,
       pointsRequired = 30, g_admins = [],
       qrCode = Some \<lparr> code = None, expiresAt = None \<rparr>,
       g_contactInfo = None, g_openingHours = None, g_amenities = None, g_isActive = True \<rparr>"

definition store0 :: store where
  "store0 = \<lparr> users = [member0, admin0], gyms = [gym0], transactions = [] \<rparr>"

definition noFault :: "step \<Rightarrow> bool" where
  "noFault st = False"

definition grant :: "number \<Rightarrow> string \<Rightarrow> transactionData" where
  "grant p ty = \<lparr> d_userId = ''u1'', d_gymId = Some ''g1'', d_points = p, d_type = ty,
       d_description = None, d_metadata = [], d_createdBy = Some ''a1'' \<rparr>"

definition payload0 :: jsval where
  "payload0 = Obj [(''id'', Str ''q0''), (''gymId'', Str ''g1'')]"

definition encode0 :: "jsval \<Rightarrow> string option" where
  "encode0 v = Some ''image''"

text \<open>A server whose local time is UTC.\<close>

definition utc :: zone where
  "utc t isUTC = 0"


text \<open>
  A cast that reads a string as an identity written in hexadecimal digits of either
  case, and nothing else as an identity.
\<close>

definition lowerHex :: "char \<Rightarrow> char" where
  "lowerHex c =
     (if c = CHR ''A'' then CHR ''a'' else if c = CHR ''B'' then CHR ''b''
      else if c = CHR ''C'' then CHR ''c'' else if c = CHR ''D'' then CHR ''d''
      else if c = CHR ''E'' then CHR ''e'' else if c = CHR ''F'' then CHR ''f'' else c)"

definition hexCast :: idCast where
  "hexCast v =
     (case v of
        Undefined \<Rightarrow> Some (\<lambda>i. False)
      | Null \<Rightarrow> Some (\<lambda>i. False)
      | Str x \<Rightarrow> Some (\<lambda>i. i = map lowerHex x)
      | _ \<Rightarrow> None)"

text \<open>A gym with a session that expires at the instant 1000, and a payload for it.\<close>

definition gymA :: gym where
  "gymA = \<lparr> g_id = ''ab12'', g_name = ''Atlas'', g_description = None, g_location = place0,
       pointsRequired = 30, g_admins = [],
       qrCode = Some \<lparr> code = Some ''q7'', expiresAt = Some 1000 \<rparr>,
       g_contactInfo = None, g_openingHours = None, g_amenities = None, g_isActive = True \<rparr>"

definition storeA :: store where
  "storeA = \<lparr> users = [member0, admin0], gyms = [gymA], transactions = [] \<rparr>"

definition payloadA :: "string \<Rightarrow> jsval" where
  "payloadA gid = Obj [(''id'', Str ''q7''), (''gymId'', Str gid)]"

definition show0 :: "number \<Rightarrow> string" where
  "show0 n = ''40''"

definition noBody :: updateBody where
  "noBody = \<lparr> b_name = None, b_email = None, b_role = None, b_points = None, b_phone = None,
       b_address = None, b_profilePicture = None, b_isActive = None \<rparr>"

section \<open>Facts about the store\<close>

lemma findUserById_id: "findUserById us i = Some u \<Longrightarrow> u_id u = i"
  by (auto simp: findUserById_def find_Some_iff)

lemma findGymById_id: "findGymById gs i = Some g \<Longrightarrow> g_id g = i"
  by (auto simp: findGymById_def find_Some_iff)

lemma find_replaceUser_other:
  "u_id u \<noteq> i \<Longrightarrow> findUserById (replaceUser u us) i = findUserById us i"
  by (induction us) (auto simp: findUserById_def replaceUser_def)

lemma find_replaceUser_same:
  "findUserById us (u_id u) = Some v \<Longrightarrow> findUserById (replaceUser u us) (u_id u) = Some u"
  by (induction us) (auto simp: findUserById_def replaceUser_def split: if_splits)

lemma findGymById_replaceGym:
  "findGymById gs i = Some g \<Longrightarrow> g_id g' = i \<Longrightarrow> findGymById (replaceGym g' gs) i = Some g'"
  by (induction gs) (auto simp: findGymById_def replaceGym_def split: if_splits)

lemma list_all_replaceUser:
  "list_all P us \<Longrightarrow> P u \<Longrightarrow> list_all P (replaceUser u us)"
  by (induction us) (auto simp: replaceUser_def)

lemma find_member0: "findUserById (users store0) ''u1'' = Some member0"
  by (simp add: findUserById_def store0_def member0_def)

lemma store0_nonNegative: "nonNegative store0"
  by (simp add: nonNegative_def store0_def member0_def admin0_def)

lemmas ledger_defs = createTransaction_def transactionBody_def createRecord_def newRecord_def
  validateTransaction_def updatePoints_def saveUser_def completeRecord_def findUserById_def
  replaceUser_def replaceTransaction_def balance_def Let_def

lemmas example_defs = store0_def member0_def admin0_def gym0_def noFault_def grant_def
  show0_def USER_def ADMIN_def

section \<open>Properties of the ledger\<close>

text \<open>A run of the body that returns has passed every step.\<close>

lemma transactionBody_Inr:
  assumes a: "transactionBody fails newId s td = Inr (s', t)"
  shows "\<exists>usr s1 t1 usr' s2. \<not> fails FindUser \<and> findUserById (users s) (d_userId td) = Some usr \<and>
    createRecord fails newId s td = Inr (s1, t1) \<and> updatePoints usr td = Inr usr' \<and>
    saveUser fails s1 usr' = Inr s2 \<and> completeRecord fails s2 t1 = Inr (s', t) \<and> \<not> fails Commit"
proof -
  have f: "\<not> fails FindUser"
    using a by (rule_tac ccontr) (simp add: transactionBody_def)
  obtain usr where u: "findUserById (users s) (d_userId td) = Some usr"
    using a f by (cases "findUserById (users s) (d_userId td)") (simp_all add: transactionBody_def)
  obtain s1 t1 where c: "createRecord fails newId s td = Inr (s1, t1)"
    using a f u
    by (cases "createRecord fails newId s td") (simp_all add: transactionBody_def, fastforce)
  obtain usr' where p: "updatePoints usr td = Inr usr'"
    using a f u c by (cases "updatePoints usr td") (simp_all add: transactionBody_def)
  obtain s2 where sv: "saveUser fails s1 usr' = Inr s2"
    using a f u c p by (cases "saveUser fails s1 usr'") (simp_all add: transactionBody_def)
  obtain s3 t3 where cp: "completeRecord fails s2 t1 = Inr (s3, t3)"
    using a f u c p sv
    by (cases "completeRecord fails s2 t1") (simp_all add: transactionBody_def, fastforce)
  have cm: "\<not> fails Commit"
    using a f u c p sv cp by (rule_tac ccontr) (simp add: transactionBody_def)
  have "s3 = s'" "t3 = t"
    using a f u c p sv cp cm by (simp_all add: transactionBody_def)
  with f u c p sv cp cm show ?thesis by blast
qed

lemma body_fails_on_fault: "fails st \<Longrightarrow> \<exists>e. transactionBody fails newId s td = Inl e"
  by (cases st)
     (auto simp: transactionBody_def createRecord_def saveUser_def completeRecord_def Let_def
           split: option.splits sum.splits if_splits)

lemma body_fails_missing:
  "findUserById (users s) (d_userId td) = None \<Longrightarrow> \<exists>e. transactionBody fails newId s td = Inl e"
  by (simp add: transactionBody_def)

lemma body_fails_insufficient:
  "findUserById (users s) (d_userId td) = Some u \<Longrightarrow> d_type td = ''SPEND'' \<Longrightarrow>
     u_points u < d_points td \<Longrightarrow> \<exists>e. transactionBody fails newId s td = Inl e"
  by (auto simp: transactionBody_def updatePoints_def split: sum.splits)

lemma createTransaction_error:
  "snd (createTransaction fails newId s td) = Inl e \<Longrightarrow> transactionBody fails newId s td = Inl e"
  unfolding createTransaction_def by (simp split: sum.splits prod.splits)

lemma createTransaction_abort:
  "transactionBody fails newId s td = Inl e \<Longrightarrow> createTransaction fails newId s td = (s, Inl e)"
  by (simp add: createTransaction_def)

text \<open>
  C3. If \<open>createTransaction\<close> fails, whether because the account is missing, because a
  SPEND exceeds the balance, because the storage rejects any of its calls, or for any
  other reason, then the store it leaves is the store it found: the balance of the
  account is the balance before the call and the transaction log holds no record of the
  call, neither COMPLETED nor PENDING. Each of the three named causes does make the call
  fail.
\<close>

theorem createTransaction_atomic:
  assumes "findUserById (users s) (d_userId td) = None
           \<or> (\<exists>u. findUserById (users s) (d_userId td) = Some u \<and> d_type td = ''SPEND''
                    \<and> u_points u < d_points td)
           \<or> (\<exists>st. fails st)
           \<or> (\<exists>e. snd (createTransaction fails newId s td) = Inl e)"
  shows "\<exists>e. createTransaction fails newId s td = (s, Inl e) \<and>
             balance (fst (createTransaction fails newId s td)) (d_userId td) = balance s (d_userId td) \<and>
             transactions (fst (createTransaction fails newId s td)) = transactions s"
proof -
  from assms have "\<exists>e. transactionBody fails newId s td = Inl e"
  proof (elim disjE exE conjE)
    assume "findUserById (users s) (d_userId td) = None"
    then show ?thesis by (rule body_fails_missing)
  next
    fix u
    assume "findUserById (users s) (d_userId td) = Some u" "d_type td = ''SPEND''"
      "u_points u < d_points td"
    then show ?thesis by (rule body_fails_insufficient)
  next
    fix st
    assume "fails st"
    then show ?thesis by (rule body_fails_on_fault)
  next
    fix e
    assume "snd (createTransaction fails newId s td) = Inl e"
    then have "transactionBody fails newId s td = Inl e" by (rule createTransaction_error)
    then show ?thesis by (rule exI)
  qed
  then obtain e where b: "transactionBody fails newId s td = Inl e" by (elim exE)
  have c: "createTransaction fails newId s td = (s, Inl e)"
    by (rule createTransaction_abort [OF b])
  show ?thesis by (rule exI [of _ e]) (simp add: c)
qed

theorem createTransaction_atomic_witness:
  "(\<exists>u. findUserById (users store0) (d_userId (grant 30 ''SPEND'')) = Some u
        \<and> d_type (grant 30 ''SPEND'') = ''SPEND'' \<and> u_points u < d_points (grant 30 ''SPEND''))
   \<and> (\<exists>e. createTransaction noFault ''t1'' store0 (grant 30 ''SPEND'') = (store0, Inl e))"
proof -
  have h: "\<exists>u. findUserById (users store0) (d_userId (grant 30 ''SPEND'')) = Some u
        \<and> d_type (grant 30 ''SPEND'') = ''SPEND'' \<and> u_points u < d_points (grant 30 ''SPEND'')"
    by (simp add: grant_def find_member0) (simp add: member0_def)
  then have "findUserById (users store0) (d_userId (grant 30 ''SPEND'')) = None
           \<or> (\<exists>u. findUserById (users store0) (d_userId (grant 30 ''SPEND'')) = Some u
                 \<and> d_type (grant 30 ''SPEND'') = ''SPEND'' \<and> u_points u < d_points (grant 30 ''SPEND''))
           \<or> (\<exists>st. noFault st)
           \<or> (\<exists>e. snd (createTransaction noFault ''t1'' store0 (grant 30 ''SPEND'')) = Inl e)"
    by blast
  from createTransaction_atomic [OF this]
  have "\<exists>e. createTransaction noFault ''t1'' store0 (grant 30 ''SPEND'') = (store0, Inl e)"
    by (elim exE conjE) (rule exI)
  with h show ?thesis by (rule conjI)
qed

lemma saveUser_nonNegative:
  "saveUser fails s usr = Inr s' \<Longrightarrow> nonNegative s \<Longrightarrow> nonNegative s'"
  by (auto simp: saveUser_def nonNegative_def list_all_replaceUser split: if_splits)

lemma createRecord_users: "createRecord fails newId s td = Inr (s', t) \<Longrightarrow> users s' = users s"
  by (auto simp: createRecord_def Let_def split: if_splits)

lemma completeRecord_users: "completeRecord fails s t = Inr (s', t') \<Longrightarrow> users s' = users s"
  by (auto simp: completeRecord_def Let_def split: if_splits)

lemma body_nonNegative:
  assumes "transactionBody fails newId s td = Inr (s', t)" and "nonNegative s"
  shows "nonNegative s'"
proof -
  from transactionBody_Inr [OF assms(1)] obtain s1 t1 usr' s2 where
    c: "createRecord fails newId s td = Inr (s1, t1)" and
    sv: "saveUser fails s1 usr' = Inr s2" and
    cp: "completeRecord fails s2 t1 = Inr (s', t)"
    by blast
  from c assms(2) have "nonNegative s1" by (simp add: nonNegative_def createRecord_users)
  with sv have "nonNegative s2" by (rule saveUser_nonNegative)
  with cp show ?thesis by (simp add: nonNegative_def completeRecord_users)
qed

lemma createTransaction_nonNegative:
  "nonNegative s \<Longrightarrow> nonNegative (fst (createTransaction fails newId s td))"
  unfolding createTransaction_def
  by (auto simp: body_nonNegative split: sum.splits prod.splits)

lemma applyAll_nonNegative: "nonNegative s \<Longrightarrow> nonNegative (applyAll s cs)"
  by (induction s cs rule: applyAll.induct) (simp_all add: createTransaction_nonNegative)

text \<open>
  C4. Starting from a store in which every balance is non-negative, after every
  sequence of ledger calls, and after each call of the sequence (every prefix of it),
  every balance is non-negative. A call that fails leaves the store as it was (C3), so
  the balances after the sequence are the balances after its successful calls.
\<close>

theorem balance_never_negative:
  "nonNegative s \<Longrightarrow> nonNegative (applyAll s (take n cs))"
  by (rule applyAll_nonNegative)

theorem balance_never_negative_witness:
  "nonNegative store0 \<and>
   nonNegative (applyAll store0
     (take 2 [(noFault, ''t1'', grant 3 ''SPEND''), (noFault, ''t2'', grant 3 ''SPEND'')]))"
  using balance_never_negative [OF store0_nonNegative, of 2
          "[(noFault, ''t1'', grant 3 ''SPEND''), (noFault, ''t2'', grant 3 ''SPEND'')]"]
        store0_nonNegative
  by simp

lemma createRecord_low:
  "d_points td < 1 \<Longrightarrow>
     \<exists>ps. createRecord fails newId s td = Inl (ValidationError ps) \<and> ''points'' \<in> set ps"
  by (simp add: createRecord_def Let_def validateTransaction_def newRecord_def)

text \<open>
  C8, as the code has it. The ledger rejects every amount below 1, so every amount that
  is zero or negative and every fraction below 1: the call fails, the store is as it
  was (no record, no balance change), and when the account is found the error is the
  validation error on \<open>points\<close>. The ledger has no test that the amount is an integer.
\<close>

theorem amount_below_one_rejected:
  assumes low: "d_points td < 1"
  shows "\<exists>e. createTransaction fails newId s td = (s, Inl e) \<and>
             (\<not> fails FindUser \<and> findUserById (users s) (d_userId td) \<noteq> None
                \<longrightarrow> (\<exists>ps. e = ValidationError ps \<and> ''points'' \<in> set ps))"
proof (cases "fails FindUser \<or> findUserById (users s) (d_userId td) = None")
  case True
  then have "\<exists>e. transactionBody fails newId s td = Inl e"
    by (auto simp: transactionBody_def)
  with True show ?thesis using createTransaction_abort by blast
next
  case False
  then obtain usr where u: "findUserById (users s) (d_userId td) = Some usr"
    and f: "\<not> fails FindUser"
    by auto
  from createRecord_low [OF low] obtain ps where
    c: "createRecord fails newId s td = Inl (ValidationError ps)" and p: "''points'' \<in> set ps"
    by blast
  from u f c have "transactionBody fails newId s td = Inl (ValidationError ps)"
    by (simp add: transactionBody_def)
  then have "createTransaction fails newId s td = (s, Inl (ValidationError ps))"
    by (rule createTransaction_abort)
  with p show ?thesis by blast
qed

theorem amount_below_one_rejected_witness:
  "d_points (grant 0 ''EARN'') < 1 \<and>
   createTransaction noFault ''t1'' store0 (grant 0 ''EARN'')
     = (store0, Inl (ValidationError [''points'']))"
  using amount_below_one_rejected [of "grant 0 ''EARN''" noFault "''t1''" store0]
  by (simp add: grant_def createTransaction_def transactionBody_def createRecord_def newRecord_def
        validateTransaction_def findUserById_def store0_def member0_def noFault_def Let_def)

text \<open>
  C8, as stated, fails: an EARN of 3/2 points, which is no integer, is applied. The
  record is COMPLETED and the balance goes from 5 to 13/2.
\<close>

theorem fractional_amount_accepted:
  "snd (createTransaction noFault ''t1'' store0 (grant (3/2) ''EARN''))
     = Inr \<lparr> t_id = ''t1'', t_userId = ''u1'', t_gymId = Some ''g1'', t_points = 3/2,
             t_type = ''EARN'', t_description = [], t_status = COMPLETED, t_metadata = [],
             t_createdBy = Some ''a1'' \<rparr> \<and>
   balance store0 ''u1'' = Some 5 \<and>
   balance (fst (createTransaction noFault ''t1'' store0 (grant (3/2) ''EARN''))) ''u1'' = Some (13/2)"
  by (simp add: ledger_defs example_defs)

section \<open>Manual grants\<close>

text \<open>
  C1. A grant of 40 points by the admin \<open>a1\<close> to the account \<open>u1\<close>, whose balance is
  5, with the gym \<open>g1\<close> named in the body. \<open>addPoints\<close> adds the points to the account
  and saves it, and then calls the ledger, which adds them again: the balance is 85,
  not 45. One COMPLETED EARN record of 40 points is written, created by \<open>a1\<close>, and the
  response reports 45 points.
\<close>

theorem addPoints_credits_twice:
  "balance store0 ''u1'' = Some 5 \<and>
   balance (fst (addPoints noFault ''t1'' show0 store0 ''a1'' ''u1'' (Some 40) None (Some ''g1'')
                   (Str ''ip''))) ''u1''
     = Some 85 \<and>
   map (\<lambda>t. (t_type t, t_status t, t_points t, t_createdBy t))
     (transactions (fst (addPoints noFault ''t1'' show0 store0 ''a1'' ''u1'' (Some 40) None
                           (Some ''g1'') (Str ''ip''))))
     = [(''EARN'', COMPLETED, 40, Some ''a1'')] \<and>
   snd (addPoints noFault ''t1'' show0 store0 ''a1'' ''u1'' (Some 40) None (Some ''g1'') (Str ''ip''))
     = Inr (''u1'', 45, 40)"
  by (simp add: addPoints_def ledger_defs example_defs)

text \<open>
  C9. The same grant with no gym in the body. \<open>addPoints\<close> passes \<open>null\<close> for the gym,
  the schema requires \<open>gymId\<close>, and the ledger fails with the validation error on that
  path: no record is written. The account was saved before the ledger was called, so
  its balance is 45.
\<close>

theorem addPoints_without_gym_fails:
  "snd (addPoints noFault ''t1'' show0 store0 ''a1'' ''u1'' (Some 40) None None (Str ''ip''))
     = Inl (ValidationError [''gymId'']) \<and>
   transactions (fst (addPoints noFault ''t1'' show0 store0 ''a1'' ''u1'' (Some 40) None None
                        (Str ''ip''))) = [] \<and>
   balance (fst (addPoints noFault ''t1'' show0 store0 ''a1'' ''u1'' (Some 40) None None
                   (Str ''ip''))) ''u1''
     = Some 45"
  by (simp add: addPoints_def ledger_defs example_defs)

text \<open>No call of the ledger without a gym identity succeeds, whoever makes it.\<close>

lemma createTransaction_requires_gym:
  "d_gymId td = None \<Longrightarrow> \<exists>e. createTransaction fails newId s td = (s, Inl e)"
proof (cases "fails FindUser \<or> findUserById (users s) (d_userId td) = None")
  case True
  then have "\<exists>e. transactionBody fails newId s td = Inl e"
    by (auto simp: transactionBody_def)
  then show ?thesis using createTransaction_abort by blast
next
  case False
  assume "d_gymId td = None"
  then have "\<exists>e. createRecord fails newId s td = Inl e"
    by (simp add: createRecord_def Let_def validateTransaction_def newRecord_def)
  with False have "\<exists>e. transactionBody fails newId s td = Inl e"
    by (auto simp: transactionBody_def)
  then show ?thesis using createTransaction_abort by blast
qed

section \<open>Administrative update\<close>

lemma updateUser_cases:
  "(\<exists>e. updateUser emailOk errorsEmpty reqUser s userId body = (s, Inl e)) \<or>
   (\<exists>usr u'. findUserById (users s) userId = Some usr \<and>
      updateUser emailOk errorsEmpty reqUser s userId body
        = (s\<lparr> users := replaceUser u' (users s) \<rparr>, Inr u') \<and>
      u_id u' = u_id usr \<and> 0 \<le> u_points u' \<and>
      u_points u' = (if isAdmin reqUser \<and> b_points body \<noteq> None
                     then the (b_points body) else u_points usr))"
proof (cases "findUserById (users s) userId")
  case None
  then show ?thesis by (simp add: updateUser_def)
next
  case (Some usr)
  show ?thesis
  proof (cases "validateUser emailOk (updateFields reqUser usr body) = []")
    case False
    with Some show ?thesis by (simp add: updateUser_def Let_def)
  next
    case True
    then have "\<not> u_points (updateFields reqUser usr body) < 0"
      by (auto simp: validateUser_def split: if_splits)
    then have n: "0 \<le> u_points (updateFields reqUser usr body)" by simp
    have i: "u_id (updateFields reqUser usr body) = u_id usr"
      by (simp add: updateFields_def)
    have p: "u_points (updateFields reqUser usr body) =
               (if isAdmin reqUser \<and> b_points body \<noteq> None
                then the (b_points body) else u_points usr)"
      by (simp add: updateFields_def)
    show ?thesis
    proof (cases "\<not> errorsEmpty \<or> (u_role reqUser = USER \<and> u_id reqUser \<noteq> userId)")
      case True
      then show ?thesis by (auto simp: updateUser_def)
    next
      case False
      with \<open>validateUser emailOk (updateFields reqUser usr body) = []\<close> Some
      have "updateUser emailOk errorsEmpty reqUser s userId body
              = (s\<lparr> users := replaceUser (updateFields reqUser usr body) (users s) \<rparr>,
                 Inr (updateFields reqUser usr body))"
        by (auto simp: updateUser_def Let_def)
      with Some n i p show ?thesis by blast
    qed
  qed
qed

text \<open>
  C5, as stated, fails: the admin \<open>a1\<close> updates the account \<open>u1\<close> with \<open>points\<close> 7 in the
  body. The balance goes from 5 to 7, the ledger is not called and no transaction record
  is written.
\<close>

theorem admin_sets_points_directly:
  "balance store0 ''u1'' = Some 5 \<and>
   balance (fst (updateUser (\<lambda>e. True) True admin0 store0 ''u1'' (noBody\<lparr> b_points := Some 7 \<rparr>))) ''u1''
     = Some 7 \<and>
   transactions (fst (updateUser (\<lambda>e. True) True admin0 store0 ''u1'' (noBody\<lparr> b_points := Some 7 \<rparr>)))
     = []"
  by (simp add: updateUser_def validateUser_def ROLES_def given_def balance_def findUserById_def
        replaceUser_def store0_def member0_def admin0_def noBody_def updateFields_def isAdmin_def
        USER_def ADMIN_def SUPER_ADMIN_def GYM_def Let_def)

section \<open>Verification of a payload\<close>

lemma truthy_getProp: "truthy payload \<Longrightarrow> \<exists>v. getProp payload k = Inr v"
  by (cases payload) (auto split: option.splits)

text \<open>\<open>verifyQRCode\<close> as the conjunction of its four checks.\<close>

lemma verifyQRCode_unfold:
  "verifyQRCode now payload g =
     (hasShape payload \<and> gymIdMatches payload g \<and>
      \<not> (qrCode g \<noteq> None \<and> isQRCodeExpired now g) \<and>
      \<not> (case qrCode g of None \<Rightarrow> False
          | Some q \<Rightarrow> getProp payload ''id'' \<noteq> Inr (strOrUndefined (code q))))"
proof (cases "truthy payload")
  case False
  then show ?thesis by (simp add: verifyQRCode_def verifyBody_def hasShape_def)
next
  case True
  obtain pid where i: "getProp payload ''id'' = Inr pid"
    using truthy_getProp [OF True] by blast
  obtain pgid where gi: "getProp payload ''gymId'' = Inr pgid"
    using truthy_getProp [OF True] by blast
  show ?thesis
    using True i gi
    by (cases "qrCode g")
       (auto simp: verifyQRCode_def verifyBody_def hasShape_def gymIdMatches_def)
qed

text \<open>
  C2. For every payload and every gym document (the document carries its \<open>qrCode\<close>
  object, with or without a session in it), \<open>verifyQRCode\<close> answers true if and only
  if (a) the payload has the expected shape, (b) its gym identity is the gym's, (c) the
  gym has a current session, (d) the current time is at most the expiry of that session
  and (e) the payload's token is the token of that session. In particular it answers
  false whenever the gym has no current session.
\<close>

theorem verifyQRCode_iff_spec:
  assumes "qrCode g \<noteq> None"
  shows "verifyQRCode now payload g = verifySpec now payload g \<and>
         (\<not> hasSession g \<longrightarrow> \<not> verifyQRCode now payload g)"
proof -
  from assms obtain q where q: "qrCode g = Some q" by auto
  have eq: "verifyQRCode now payload g = verifySpec now payload g"
  proof (cases "expiresAt q")
    case None
    with q show ?thesis
      by (simp add: verifyQRCode_unfold verifySpec_def isQRCodeExpired_def)
  next
    case (Some e)
    show ?thesis
    proof (cases "code q")
      case None
      with q Some show ?thesis
        by (auto simp: verifyQRCode_unfold verifySpec_def isQRCodeExpired_def hasSession_def
              hasShape_def strOrUndefined_def)
    next
      case (Some c)
      with q \<open>expiresAt q = Some e\<close> show ?thesis
        by (auto simp: verifyQRCode_unfold verifySpec_def isQRCodeExpired_def hasSession_def)
    qed
  qed
  then show ?thesis by (simp add: verifySpec_def)
qed

theorem verifyQRCode_iff_spec_witness:
  "qrCode (gym0\<lparr> qrCode := Some \<lparr> code = Some ''q0'', expiresAt = Some 10 \<rparr> \<rparr>) \<noteq> None
   \<and> qrCode gym0 \<noteq> None
   \<and> verifyQRCode 5 payload0 (gym0\<lparr> qrCode := Some \<lparr> code = Some ''q0'', expiresAt = Some 10 \<rparr> \<rparr>)
   \<and> \<not> verifyQRCode 11 payload0 (gym0\<lparr> qrCode := Some \<lparr> code = Some ''q0'', expiresAt = Some 10 \<rparr> \<rparr>)
   \<and> \<not> verifyQRCode 5 payload0 (gym0\<lparr> qrCode := Some \<lparr> code = Some ''q9'', expiresAt = Some 10 \<rparr> \<rparr>)
   \<and> \<not> hasSession gym0 \<and> \<not> verifyQRCode 5 payload0 gym0"
proof -
  have a: "qrCode (gym0\<lparr> qrCode := Some \<lparr> code = Some ''q0'', expiresAt = Some 10 \<rparr> \<rparr>) \<noteq> None"
    by simp
  have b: "qrCode (gym0\<lparr> qrCode := Some \<lparr> code = Some ''q9'', expiresAt = Some 10 \<rparr> \<rparr>) \<noteq> None"
    by simp
  have c: "qrCode gym0 \<noteq> None" by (simp add: gym0_def)
  from verifyQRCode_iff_spec [OF a, of 5 payload0] verifyQRCode_iff_spec [OF a, of 11 payload0]
       verifyQRCode_iff_spec [OF b, of 5 payload0] verifyQRCode_iff_spec [OF c, of 5 payload0] c
  show ?thesis
    by (simp add: verifySpec_def hasShape_def gymIdMatches_def hasSession_def gym0_def
          payload0_def strOrUndefined_def)
qed

section \<open>The gym of a scan\<close>











lemma resolve_upper:
  "resolveGym hexCast storeA (Some (payloadA ''AB12'')) = Inr (payloadA ''AB12'', gymA)"
  by (simp add: resolveGym_def payloadA_def findGymByValue_def hexCast_def lowerHex_def
        storeA_def gymA_def)



section \<open>Issuance, supersession and expiry\<close>

lemma generateGymQRCode_Inr:
  "generateGymQRCode env tza enc qrId ts now g = Inr qd \<Longrightarrow>
     q_code qd = qrId \<and> q_expiresAt qd = addLocalHours tza now (expiryHours env) \<and>
     q_data qd = qrPayload qrId ts g \<and>
     getProp (q_data qd) ''id'' = Inr (Str qrId) \<and>
     getProp (q_data qd) ''gymId'' = Inr (Str (g_id g)) \<and> truthy (q_data qd)"
  by (auto simp: generateGymQRCode_def qrPayload_def Let_def split: option.splits)

text \<open>What a successful issuance leaves behind.\<close>

lemma generateQRCode_Inr:
  assumes "generateQRCode env tza enc sf qrId ts now s gymId = (s', Inr r)"
  shows "\<exists>g qd. findGymById (gyms s) gymId = Some g \<and>
           generateGymQRCode env tza enc qrId ts now g = Inr qd \<and>
           findGymById (gyms s') gymId =
             Some (g\<lparr> qrCode := Some \<lparr> code = Some qrId,
                                       expiresAt = Some (addLocalHours tza now (expiryHours env)) \<rparr> \<rparr>)"
proof -
  obtain g where g: "findGymById (gyms s) gymId = Some g"
    using assms by (cases "findGymById (gyms s) gymId") (simp_all add: generateQRCode_def)
  obtain qd where q: "generateGymQRCode env tza enc qrId ts now g = Inr qd"
    using assms g
    by (cases "generateGymQRCode env tza enc qrId ts now g") (simp_all add: generateQRCode_def)
  have nf: "\<not> sf"
    using assms g q by (rule_tac ccontr) (simp add: generateQRCode_def Let_def)
  let ?g' = "g\<lparr> qrCode := Some \<lparr> code = Some (q_code qd), expiresAt = Some (q_expiresAt qd) \<rparr> \<rparr>"
  from assms g q nf have s': "s' = s\<lparr> gyms := replaceGym ?g' (gyms s) \<rparr>"
    by (simp add: generateQRCode_def Let_def)
  have "g_id ?g' = gymId" using findGymById_id [OF g] by simp
  from findGymById_replaceGym [OF g this] s'
  have "findGymById (gyms s') gymId = Some ?g'" by simp
  with g q generateGymQRCode_Inr [OF q] show ?thesis by auto
qed


lemma verifyQRCode_other_token:
  assumes "getProp payload ''id'' = Inr (Str tok)" and "qrCode g = Some q" and "code q = Some c"
    and "tok \<noteq> c"
  shows "\<not> verifyQRCode now payload g"
proof (cases "truthy payload")
  case False
  then show ?thesis by (simp add: verifyQRCode_def verifyBody_def)
next
  case True
  with assms show ?thesis
    by (cases "getProp payload ''gymId''")
       (auto simp: verifyQRCode_def verifyBody_def strOrUndefined_def)
qed

lemma issue_first:
  "generateQRCode None utc encode0 False ''q1'' ''ts1'' 1000 store0 ''g1'' =
     (store0\<lparr> gyms := [gym0\<lparr> qrCode := Some \<lparr> code = Some ''q1'', expiresAt = Some 86401000 \<rparr> \<rparr>] \<rparr>,
      Inr (''image'', 86401000))"
  by (simp add: generateQRCode_def generateGymQRCode_def findGymById_def replaceGym_def
        expiryHours_def addLocalHours_def utc_def store0_def gym0_def encode0_def Let_def)

lemma issue_second:
  "generateQRCode None utc encode0 False ''q2'' ''ts2'' 61000
     (store0\<lparr> gyms := [gym0\<lparr> qrCode := Some \<lparr> code = Some ''q1'', expiresAt = Some 86401000 \<rparr> \<rparr>] \<rparr>)
     ''g1'' =
     (store0\<lparr> gyms := [gym0\<lparr> qrCode := Some \<lparr> code = Some ''q2'', expiresAt = Some 86461000 \<rparr> \<rparr>] \<rparr>,
      Inr (''image'', 86461000))"
  by (simp add: generateQRCode_def generateGymQRCode_def findGymById_def replaceGym_def
        expiryHours_def addLocalHours_def utc_def store0_def gym0_def encode0_def Let_def)

text \<open>
  C6. Two sessions are issued for the same gym, one after the other, with different
  tokens (\<open>uuidv4\<close> gives a fresh token to each). After the second issuance the payload
  of the first is not verified against the gym, at any time \<open>now3\<close>, so also before the
  expiry of the first session.
\<close>

theorem second_issue_supersedes_first:
  assumes first: "generateQRCode env1 tza1 enc1 sf1 qrId1 ts1 now1 s0 gymId = (s1, Inr r1)"
    and second: "generateQRCode env2 tza2 enc2 sf2 qrId2 ts2 now2 s1 gymId = (s2, Inr r2)"
    and fresh: "qrId1 \<noteq> qrId2"
  shows "\<exists>g0 qd1 g2. findGymById (gyms s0) gymId = Some g0 \<and>
           generateGymQRCode env1 tza1 enc1 qrId1 ts1 now1 g0 = Inr qd1 \<and>
           findGymById (gyms s2) gymId = Some g2 \<and>
           \<not> verifyQRCode now3 (q_data qd1) g2"
proof -
  from generateQRCode_Inr [OF first] obtain g0 qd1 where
    g0: "findGymById (gyms s0) gymId = Some g0" and
    q1: "generateGymQRCode env1 tza1 enc1 qrId1 ts1 now1 g0 = Inr qd1"
    by blast
  from generateQRCode_Inr [OF second] obtain g1 where
    g2: "findGymById (gyms s2) gymId =
           Some (g1\<lparr> qrCode := Some \<lparr> code = Some qrId2,
                                      expiresAt = Some (addLocalHours tza2 now2 (expiryHours env2)) \<rparr> \<rparr>)"
    by blast
  from generateGymQRCode_Inr [OF q1] have "getProp (q_data qd1) ''id'' = Inr (Str qrId1)"
    by blast
  from verifyQRCode_other_token [OF this _ _ fresh]
  have "\<not> verifyQRCode now3 (q_data qd1)
            (g1\<lparr> qrCode := Some \<lparr> code = Some qrId2,
                                     expiresAt = Some (addLocalHours tza2 now2 (expiryHours env2)) \<rparr> \<rparr>)"
    by simp
  with g0 q1 g2 show ?thesis by blast
qed

theorem second_issue_supersedes_first_witness:
  "''q1'' \<noteq> ''q2'' \<and>
   \<not> verifyQRCode 121000
       (Obj [(''id'', Str ''q1''), (''gymId'', Str ''g1''), (''name'', Str ''Iron''),
             (''pointsRequired'', Num 30), (''timestamp'', Str ''ts1'')])
       (gym0\<lparr> qrCode := Some \<lparr> code = Some ''q2'', expiresAt = Some 86461000 \<rparr> \<rparr>)"
  using second_issue_supersedes_first [OF issue_first issue_second, of 121000]
  by (simp add: generateGymQRCode_def qrPayload_def findGymById_def store0_def gym0_def encode0_def
        expiryHours_def Let_def)




section \<open>Which calls write the points of an account\<close>

lemma find_in_set: "find P xs = Some x \<Longrightarrow> x \<in> set xs \<and> P x"
  by (induction xs) (auto split: if_splits)

lemma findUserById_distinct:
  "distinct (map u_id us) \<Longrightarrow> u \<in> set us \<Longrightarrow> findUserById us (u_id u) = Some u"
  by (induction us) (auto simp: findUserById_def rev_image_eqI)

lemma points_replaceUser:
  assumes "findUserById us (u_id u') = Some usr" and "u_points u' = u_points usr"
  shows "map_option u_points (findUserById (replaceUser u' us) i)
           = map_option u_points (findUserById us i)"
proof (cases "i = u_id u'")
  case True
  with assms find_replaceUser_same [of us u' usr] show ?thesis by simp
next
  case False
  then show ?thesis by (simp add: find_replaceUser_other)
qed

lemma points_map:
  assumes "\<And>u. u_id (f u) = u_id u \<and> u_points (f u) = u_points u"
  shows "map_option u_points (findUserById (map f us) i) = map_option u_points (findUserById us i)"
  by (induction us) (auto simp: findUserById_def assms)

lemma find_append_user:
  "findUserById us i = Some u \<Longrightarrow> findUserById (us @ [v]) i = Some u"
  by (induction us) (auto simp: findUserById_def)

lemma find_filter_user:
  "findUserById (filter (\<lambda>u. u_id u \<noteq> j) us) i = (if i = j then None else findUserById us i)"
  by (induction us) (auto simp: findUserById_def)

lemma createUser_Inr:
  "createUser emailOk hash newId s name email password role points = Inr (s', u) \<Longrightarrow>
     \<exists>v. s' = s\<lparr> users := users s @ [v] \<rparr>"
  by (auto simp: createUser_def Let_def split: option.splits if_splits)

lemma registerUser_points:
  assumes "balance s i = Some p"
    and "balance (fst (registerUser emailOk hash sign env newId errorsEmpty s name email password)) i
           = Some q"
  shows "p = q"
proof (cases "createUser emailOk hash newId s name email password USER (defaultPoints env)")
  case (Inl e)
  with assms show ?thesis by (auto simp: registerUser_def split: if_splits)
next
  case (Inr st)
  then obtain s' u where c: "createUser emailOk hash newId s name email password USER (defaultPoints env)
                               = Inr (s', u)" by (cases st) simp
  from createUser_Inr [OF c] obtain v where s': "s' = s\<lparr> users := users s @ [v] \<rparr>" by blast
  from assms(1) obtain usr where f: "findUserById (users s) i = Some usr" and "u_points usr = p"
    by (auto simp: balance_def)
  with find_append_user [OF f, of v] s' have "balance s' i = Some p" by (simp add: balance_def)
  with assms c show ?thesis by (auto simp: registerUser_def split: if_splits)
qed

lemma registerAdmin_points:
  assumes "balance s i = Some p"
    and "balance (fst (registerAdmin emailOk hash env newId errorsEmpty s name email password role)) i
           = Some q"
  shows "p = q"
proof (cases "createUser emailOk hash newId s name email password role (defaultPoints env)")
  case (Inl e)
  with assms show ?thesis by (auto simp: registerAdmin_def split: if_splits)
next
  case (Inr st)
  then obtain s' u where c: "createUser emailOk hash newId s name email password role (defaultPoints env)
                               = Inr (s', u)" by (cases st) simp
  from createUser_Inr [OF c] obtain v where s': "s' = s\<lparr> users := users s @ [v] \<rparr>" by blast
  from assms(1) obtain usr where f: "findUserById (users s) i = Some usr" and "u_points usr = p"
    by (auto simp: balance_def)
  with find_append_user [OF f, of v] s' have "balance s' i = Some p" by (simp add: balance_def)
  with assms c show ?thesis by (auto simp: registerAdmin_def split: if_splits)
qed

lemma createSuperAdmin_points:
  assumes "balance s i = Some p"
    and "balance (createSuperAdmin emailOk hash newId s recreate name email password) i = Some q"
  shows "p = q"
proof (cases "createUser emailOk hash newId s name email password SUPER_ADMIN (Some 9999)")
  case (Inl e)
  with assms show ?thesis by (auto simp: createSuperAdmin_def split: if_splits)
next
  case (Inr st)
  then obtain s' u where c: "createUser emailOk hash newId s name email password SUPER_ADMIN (Some 9999)
                               = Inr (s', u)" by (cases st) simp
  from createUser_Inr [OF c] obtain v where s': "s' = s\<lparr> users := users s @ [v] \<rparr>" by blast
  from assms(1) obtain usr where f: "findUserById (users s) i = Some usr" and "u_points usr = p"
    by (auto simp: balance_def)
  with find_append_user [OF f, of v] s' have "balance s' i = Some p" by (simp add: balance_def)
  with assms c show ?thesis by (auto simp: createSuperAdmin_def split: if_splits)
qed

lemma login_balance:
  assumes d: "distinct (map u_id (users s))"
  shows "balance (fst (login compare sign now errorsEmpty s email password)) i = balance s i"
proof (cases "findUserByEmail (users s) email")
  case None
  then show ?thesis by (simp add: login_def)
next
  case (Some usr)
  then have "usr \<in> set (users s)" by (simp add: findUserByEmail_def find_in_set)
  from findUserById_distinct [OF d this]
  have "findUserById (users s) (u_id (usr\<lparr> u_lastLogin := Some now \<rparr>)) = Some usr" by simp
  from points_replaceUser [OF this, of i]
  have "balance (s\<lparr> users := replaceUser (usr\<lparr> u_lastLogin := Some now \<rparr>) (users s) \<rparr>) i = balance s i"
    by (simp add: balance_def)
  with Some show ?thesis by (simp add: login_def Let_def)
qed

lemma changePassword_balance:
  "balance (fst (changePassword compare hash sign errorsEmpty s reqUserId current new)) i = balance s i"
proof (cases "findUserById (users s) reqUserId")
  case None
  then show ?thesis by (simp add: changePassword_def)
next
  case (Some usr)
  from findUserById_id [OF Some]
  have "findUserById (users s) (u_id (usr\<lparr> u_password := hash new \<rparr>)) = Some usr"
    using Some by simp
  from points_replaceUser [OF this, of i]
  have "balance (s\<lparr> users := replaceUser (usr\<lparr> u_password := hash new \<rparr>) (users s) \<rparr>) i = balance s i"
    by (simp add: balance_def)
  with Some show ?thesis by (simp add: changePassword_def Let_def)
qed

lemma protect_balance:
  "balance (fst (protect jwtVerify now s header)) i = balance s i"
proof (cases "bearerToken header")
  case None
  then show ?thesis by (simp add: protect_def)
next
  case t: (Some token)
  show ?thesis
  proof (cases "jwtVerify token")
    case (Inl e)
    with t show ?thesis by (simp add: protect_def)
  next
    case (Inr uid)
    show ?thesis
    proof (cases "findUserById (users s) uid")
      case None
      with t Inr show ?thesis by (simp add: protect_def)
    next
      case (Some usr)
      from findUserById_id [OF Some]
      have "findUserById (users s) (u_id (usr\<lparr> u_lastLogin := Some now \<rparr>)) = Some usr"
        using Some by simp
      from points_replaceUser [OF this, of i]
      have "balance (s\<lparr> users := replaceUser (usr\<lparr> u_lastLogin := Some now \<rparr>) (users s) \<rparr>) i
              = balance s i"
        by (simp add: balance_def)
      with t Inr Some show ?thesis by (simp add: protect_def Let_def)
    qed
  qed
qed

lemma deleteUser_points:
  assumes "balance s i = Some p" and "balance (fst (deleteUser reqUser s userId)) i = Some q"
  shows "p = q"
proof (cases "findUserById (users s) userId")
  case None
  with assms show ?thesis by (simp add: deleteUser_def)
next
  case (Some usr)
  with assms show ?thesis
    by (auto simp: deleteUser_def balance_def find_filter_user split: if_splits)
qed

lemma createGym_balance:
  "balance (fst (createGym newId errorsEmpty reqUser s body)) i = balance s i"
proof (cases "gb_location body")
  case None
  then show ?thesis by (simp add: createGym_def)
next
  case (Some lb)
  have m: "map_option u_points
             (findUserById (map (\<lambda>u. if u_id u = u_id reqUser
                                      then u\<lparr> u_assignedGyms := addToSet newId (u_assignedGyms u) \<rparr>
                                      else u) (users s)) i)
           = map_option u_points (findUserById (users s) i)"
    by (rule points_map) simp
  with Some show ?thesis
    by (simp add: createGym_def Let_def balance_def)
qed

lemma updateGym_balance:
  "balance (fst (updateGym errorsEmpty reqUser s gymId body)) i = balance s i"
  by (cases "findGymById (gyms s) gymId") (simp_all add: updateGym_def Let_def balance_def)

lemma deleteGym_balance: "balance (fst (deleteGym s gymId)) i = balance s i"
proof (cases "findGymById (gyms s) gymId")
  case None
  then show ?thesis by (simp add: deleteGym_def)
next
  case (Some g)
  have "map_option u_points
          (findUserById (map (\<lambda>u. u\<lparr> u_assignedGyms := removeAll gymId (u_assignedGyms u) \<rparr>) (users s)) i)
        = map_option u_points (findUserById (users s) i)"
    by (rule points_map) simp
  with Some show ?thesis by (simp add: deleteGym_def balance_def)
qed

lemma assignAdmin_balance: "balance (fst (assignAdmin s gymId userId)) i = balance s i"
proof (cases "findGymById (gyms s) gymId")
  case None
  then show ?thesis by (simp add: assignAdmin_def)
next
  case g: (Some g)
  show ?thesis
  proof (cases "findUserById (users s) (the userId)")
    case None
    with g show ?thesis by (simp add: assignAdmin_def)
  next
    case (Some usr)
    from findUserById_id [OF Some]
    have "findUserById (users s) (u_id (usr\<lparr> u_assignedGyms := u_assignedGyms usr @ [gymId] \<rparr>))
            = Some usr"
      using Some by simp
    from points_replaceUser [OF this, of i]
    have "map_option u_points
            (findUserById (replaceUser (usr\<lparr> u_assignedGyms := u_assignedGyms usr @ [gymId] \<rparr>)
                             (users s)) i)
          = map_option u_points (findUserById (users s) i)"
      by simp
    with g Some show ?thesis by (simp add: assignAdmin_def balance_def)
  qed
qed

lemma removeAdmin_balance: "balance (fst (removeAdmin s gymId userId)) i = balance s i"
proof (cases "findGymById (gyms s) gymId")
  case None
  then show ?thesis by (simp add: removeAdmin_def)
next
  case g: (Some g)
  show ?thesis
  proof (cases "findUserById (users s) userId")
    case None
    with g show ?thesis by (simp add: removeAdmin_def)
  next
    case (Some usr)
    from findUserById_id [OF Some]
    have "findUserById (users s)
            (u_id (usr\<lparr> u_assignedGyms := filter (\<lambda>i. i \<noteq> gymId) (u_assignedGyms usr) \<rparr>))
            = Some usr"
      using Some by simp
    from points_replaceUser [OF this, of i]
    have "map_option u_points
            (findUserById (replaceUser
                             (usr\<lparr> u_assignedGyms := filter (\<lambda>i. i \<noteq> gymId) (u_assignedGyms usr) \<rparr>)
                             (users s)) i)
          = map_option u_points (findUserById (users s) i)"
      by simp
    with g Some show ?thesis by (simp add: removeAdmin_def balance_def)
  qed
qed

lemma generateQRCode_balance:
  "balance (fst (generateQRCode env tza toDataURL saveFails qrId timestamp now s gymId)) i
     = balance s i"
proof (cases "findGymById (gyms s) gymId")
  case None
  then show ?thesis by (simp add: generateQRCode_def)
next
  case (Some g)
  then show ?thesis
    by (cases "generateGymQRCode env tza toDataURL qrId timestamp now g")
       (simp_all add: generateQRCode_def Let_def balance_def)
qed

lemma scanQRCode_via_ledger:
  "fst (scanQRCode cast fails newId now s userId parsed deviceInfo location) = s \<or>
   (\<exists>td. fst (scanQRCode cast fails newId now s userId parsed deviceInfo location)
            = fst (createTransaction fails newId s td))"
proof (cases "resolveGym cast s parsed")
  case (Inl e)
  then show ?thesis by (simp add: scanQRCode_def)
next
  case (Inr pg)
  then obtain payload g where r: "resolveGym cast s parsed = Inr (payload, g)" by (cases pg) simp
  show ?thesis
  proof (cases "verifyQRCode now payload g")
    case False
    with r show ?thesis by (simp add: scanQRCode_def)
  next
    case v: True
    show ?thesis
    proof (cases "findUserById (users s) userId")
      case None
      with r v show ?thesis by (simp add: scanQRCode_def)
    next
      case u: (Some usr)
      show ?thesis
      proof (cases "u_points usr < pointsRequired g")
        case True
        with r v u show ?thesis by (simp add: scanQRCode_def)
      next
        case np: False
        show ?thesis
        proof (cases "getProp payload ''id''")
          case (Inl e)
          with r v u np show ?thesis by (simp add: scanQRCode_def)
        next
          case (Inr pid)
          let ?td = "\<lparr> d_userId = u_id usr, d_gymId = Some (g_id g),
                        d_points = pointsRequired g, d_type = ''SPEND'',
                        d_description = Some (''Gym access: '' @ g_name g),
                        d_metadata = [(''qrCodeId'', pid), (''deviceInfo'', deviceInfo),
                                      (''location'', location)],
                        d_createdBy = None \<rparr>"
          obtain s' res where c: "createTransaction fails newId s ?td = (s', res)"
            by (cases "createTransaction fails newId s ?td")
          with r v u np Inr
          have "fst (scanQRCode cast fails newId now s userId parsed deviceInfo location)
                  = fst (createTransaction fails newId s ?td)"
            by (cases res) (simp_all add: scanQRCode_def)
          then show ?thesis by blast
        qed
      qed
    qed
  qed
qed

lemma createTransactionRequest_via_ledger:
  "fst (createTransactionRequest fails newId showNumber errorsEmpty reqUser s userId gymId points
          type description ip) = s \<or>
   (\<exists>td. fst (createTransactionRequest fails newId showNumber errorsEmpty reqUser s userId gymId
                 points type description ip)
            = fst (createTransaction fails newId s td))"
proof (cases "findUserById (users s) userId")
  case None
  then show ?thesis by (simp add: createTransactionRequest_def)
next
  case u: (Some usr)
  show ?thesis
  proof (cases "findGymById (gyms s) gymId")
    case None
    with u show ?thesis by (simp add: createTransactionRequest_def)
  next
    case (Some g)
    with u show ?thesis by (auto simp: createTransactionRequest_def)
  qed
qed

text \<open>The store that \<open>updateUser\<close> leaves when it saves.\<close>

lemma updateUser_saves:
  assumes "errorsEmpty" and "isAdmin reqUser" and f: "findUserById (users s) userId = Some usr"
    and v: "validateUser emailOk (updateFields reqUser usr body) = []"
  shows "updateUser emailOk errorsEmpty reqUser s userId body =
           (s\<lparr> users := replaceUser (updateFields reqUser usr body) (users s) \<rparr>,
            Inr (updateFields reqUser usr body))"
proof -
  from \<open>isAdmin reqUser\<close> have "u_role reqUser \<noteq> USER"
    by (auto simp: isAdmin_def USER_def SUPER_ADMIN_def ADMIN_def)
  with assms show ?thesis by (simp add: updateUser_def Let_def)
qed

lemma updateUser_changes:
  assumes "balance (fst (updateUser emailOk errorsEmpty reqUser s userId body)) i \<noteq> balance s i"
  shows "isAdmin reqUser \<and> b_points body \<noteq> None \<and>
         balance (fst (updateUser emailOk errorsEmpty reqUser s userId body)) i = b_points body \<and>
         0 \<le> the (b_points body) \<and>
         map_option u_id (findUserById (users s) userId) = Some i"
proof -
  from updateUser_cases [of emailOk errorsEmpty reqUser s userId body]
  show ?thesis
  proof
    assume "\<exists>e. updateUser emailOk errorsEmpty reqUser s userId body = (s, Inl e)"
    with assms show ?thesis by auto
  next
    assume "\<exists>usr u'. findUserById (users s) userId = Some usr \<and>
      updateUser emailOk errorsEmpty reqUser s userId body
        = (s\<lparr> users := replaceUser u' (users s) \<rparr>, Inr u') \<and>
      u_id u' = u_id usr \<and> 0 \<le> u_points u' \<and>
      u_points u' = (if isAdmin reqUser \<and> b_points body \<noteq> None
                     then the (b_points body) else u_points usr)"
    then obtain usr u' where
      f: "findUserById (users s) userId = Some usr" and
      u: "updateUser emailOk errorsEmpty reqUser s userId body
            = (s\<lparr> users := replaceUser u' (users s) \<rparr>, Inr u')" and
      id: "u_id u' = u_id usr" and
      n: "0 \<le> u_points u'" and
      p: "u_points u' = (if isAdmin reqUser \<and> b_points body \<noteq> None
                         then the (b_points body) else u_points usr)"
      by blast
    have uid: "u_id u' = userId" using id findUserById_id [OF f] by simp
    show ?thesis
    proof (cases "i = userId")
      case False
      with uid u assms show ?thesis by (simp add: balance_def find_replaceUser_other)
    next
      case True
      from f uid find_replaceUser_same [of "users s" u' usr]
      have "findUserById (replaceUser u' (users s)) (u_id u') = Some u'"
        by simp
      with True uid u f p n id assms show ?thesis by (auto simp: balance_def split: if_splits)
    qed
  qed
qed

lemma updateUser_sets_points:
  assumes "errorsEmpty" and "isAdmin reqUser" and f: "findUserById (users s) userId = Some usr"
    and b: "b_points body = Some v"
    and v: "validateUser emailOk (updateFields reqUser usr body) = []"
  shows "balance (fst (updateUser emailOk errorsEmpty reqUser s userId body)) userId = Some v \<and>
         transactions (fst (updateUser emailOk errorsEmpty reqUser s userId body)) = transactions s"
proof -
  let ?u = "updateFields reqUser usr body"
  have id: "u_id ?u = userId" using findUserById_id [OF f] by (simp add: updateFields_def)
  have p: "u_points ?u = v" using \<open>isAdmin reqUser\<close> b by (simp add: updateFields_def)
  from f id find_replaceUser_same [of "users s" ?u usr]
  have "findUserById (replaceUser ?u (users s)) userId = Some ?u" by simp
  with p updateUser_saves [OF assms(1) assms(2) f v] show ?thesis
    by (simp add: balance_def)
qed

lemma other_calls_keep_points:
  assumes d: "distinct (map u_id (users s))" and nl: "\<not> viaLedger r" and nw: "\<not> writesAccount r"
    and p: "balance s i = Some p" and q: "balance (perform r s) i = Some q"
  shows "p = q"
proof (cases r)
  case (RegisterUser emailOk hash sign env newId errorsEmpty name email password)
  with p q show ?thesis using registerUser_points by simp
next
  case (RegisterAdmin emailOk hash env newId errorsEmpty name email password role)
  with p q show ?thesis using registerAdmin_points by simp
next
  case (Login compare sign now errorsEmpty email password)
  with p q login_balance [OF d] show ?thesis by simp
next
  case (ChangePassword compare hash sign errorsEmpty reqUserId current new)
  with p q show ?thesis by (simp add: changePassword_balance)
next
  case (Protect jwtVerify now header)
  with p q show ?thesis by (simp add: protect_balance)
next
  case (UpdateUser emailOk errorsEmpty reqUser userId body)
  with nw show ?thesis by simp
next
  case (DeleteUser reqUser userId)
  with p q show ?thesis using deleteUser_points by simp
next
  case (AddPoints fails newId showNumber adminId userId points reason gymId ip)
  with nw show ?thesis by simp
next
  case (CreateGym newId errorsEmpty reqUser body)
  with p q show ?thesis by (simp add: createGym_balance)
next
  case (UpdateGym errorsEmpty reqUser gymId body)
  with p q show ?thesis by (simp add: updateGym_balance)
next
  case (DeleteGym gymId)
  with p q show ?thesis by (simp add: deleteGym_balance)
next
  case (AssignAdmin gymId userId)
  with p q show ?thesis by (simp add: assignAdmin_balance)
next
  case (RemoveAdmin gymId userId)
  with p q show ?thesis by (simp add: removeAdmin_balance)
next
  case (GenerateQR env tza toDataURL saveFails qrId timestamp now gymId)
  with p q show ?thesis by (simp add: generateQRCode_balance)
next
  case (ScanQR cast fails newId now userId parsed deviceInfo location)
  with nl show ?thesis by simp
next
  case (ManualTransaction fails newId showNumber errorsEmpty reqUser userId gymId points type
          description ip)
  with nl show ?thesis by simp
next
  case (CreateSuperAdmin emailOk hash newId recreate name email password)
  with p q show ?thesis using createSuperAdmin_points by simp
next
  case ReadOnly
  with p q show ?thesis by simp
qed

lemma ledger_calls_only_through_ledger:
  assumes "viaLedger r"
  shows "perform r s = s \<or>
         (\<exists>fails newId td. perform r s = fst (createTransaction fails newId s td))"
proof (cases r)
  case (ScanQR cast fails newId now userId parsed deviceInfo location)
  with scanQRCode_via_ledger [of cast fails newId now s userId parsed deviceInfo location]
  show ?thesis by auto
next
  case (ManualTransaction fails newId showNumber errorsEmpty reqUser userId gymId points type
          description ip)
  with createTransactionRequest_via_ledger
         [of fails newId showNumber errorsEmpty reqUser s userId gymId points type description ip]
  show ?thesis by auto
qed (use assms in simp_all)

text \<open>
  C5, as the code has it. The points of an account that is stored before and after a
  call are changed by no export other than these. (1) The ledger: \<open>scanQRCode\<close> and the
  manual transaction of the transaction controller change the store through
  \<open>Transaction.createTransaction\<close> and in no other way. (2) The administrative update:
  when \<open>updateUser\<close> changes a balance, the caller's role is super admin or admin, the
  body carries \<open>points\<close>, the account is the one of the route and its balance is that
  value, which is not negative; and when such a caller sends a body with \<open>points\<close> for
  an account that is found and the update passes validation, the balance of the account
  is that value and no transaction record is written. (3) \<open>addPoints\<close>, of which
  nothing is said here (see C1). Every other call (registration, login, change of
  password, the authentication middleware, deletion of a user, creation, update and
  deletion of a gym, assignment and removal of an admin, issuance of a QR code, the
  set-up script, and the exports that only read) leaves the points of every account as
  they were; identities of stored users are distinct, as the storage keeps them.
\<close>

theorem points_written_by_ledger_or_admin_update:
  "(distinct (map u_id (users s)) \<and> \<not> viaLedger r \<and> \<not> writesAccount r \<and>
      balance s i = Some p \<and> balance (perform r s) i = Some q \<longrightarrow> p = q) \<and>
   (viaLedger r \<longrightarrow>
      perform r s = s \<or>
      (\<exists>fails newId td. perform r s = fst (createTransaction fails newId s td))) \<and>
   (balance (perform (UpdateUser emailOk errorsEmpty reqUser userId body) s) j \<noteq> balance s j \<longrightarrow>
      isAdmin reqUser \<and> b_points body \<noteq> None \<and>
      balance (perform (UpdateUser emailOk errorsEmpty reqUser userId body) s) j = b_points body \<and>
      0 \<le> the (b_points body) \<and>
      map_option u_id (findUserById (users s) userId) = Some j) \<and>
   (errorsEmpty \<and> isAdmin reqUser \<and> findUserById (users s) userId = Some usr \<and>
      b_points body = Some v \<and> validateUser emailOk (updateFields reqUser usr body) = [] \<longrightarrow>
      balance (perform (UpdateUser emailOk errorsEmpty reqUser userId body) s) userId = Some v \<and>
      transactions (perform (UpdateUser emailOk errorsEmpty reqUser userId body) s)
        = transactions s)"
proof (intro conjI impI)
  assume "distinct (map u_id (users s)) \<and> \<not> viaLedger r \<and> \<not> writesAccount r \<and>
          balance s i = Some p \<and> balance (perform r s) i = Some q"
  then show "p = q" using other_calls_keep_points by blast
next
  assume "viaLedger r"
  then show "perform r s = s \<or>
             (\<exists>fails newId td. perform r s = fst (createTransaction fails newId s td))"
    by (rule ledger_calls_only_through_ledger)
next
  assume a: "balance (perform (UpdateUser emailOk errorsEmpty reqUser userId body) s) j
               \<noteq> balance s j"
  then have "balance (fst (updateUser emailOk errorsEmpty reqUser s userId body)) j \<noteq> balance s j"
    by simp
  from updateUser_changes [OF this]
  show "isAdmin reqUser" and "b_points body \<noteq> None"
    and "balance (perform (UpdateUser emailOk errorsEmpty reqUser userId body) s) j = b_points body"
    and "0 \<le> the (b_points body)"
    and "map_option u_id (findUserById (users s) userId) = Some j"
    by simp_all
next
  assume a: "errorsEmpty \<and> isAdmin reqUser \<and> findUserById (users s) userId = Some usr \<and>
             b_points body = Some v \<and> validateUser emailOk (updateFields reqUser usr body) = []"
  then have e: errorsEmpty and ad: "isAdmin reqUser"
    and f: "findUserById (users s) userId = Some usr" and b: "b_points body = Some v"
    and v: "validateUser emailOk (updateFields reqUser usr body) = []"
    by simp_all
  from updateUser_sets_points [OF e ad f b v]
  show "balance (perform (UpdateUser emailOk errorsEmpty reqUser userId body) s) userId = Some v"
    and "transactions (perform (UpdateUser emailOk errorsEmpty reqUser userId body) s)
           = transactions s"
    by simp_all
qed

theorem points_written_by_ledger_or_admin_update_witness:
  "distinct (map u_id (users store0)) \<and>
   \<not> viaLedger (AssignAdmin ''g1'' (Some ''a1'')) \<and> \<not> writesAccount (AssignAdmin ''g1'' (Some ''a1'')) \<and>
   balance store0 ''a1'' = Some 100 \<and>
   balance (perform (AssignAdmin ''g1'' (Some ''a1'')) store0) ''a1'' = Some 100 \<and>
   isAdmin admin0 \<and> findUserById (users store0) ''u1'' = Some member0 \<and>
   balance store0 ''u1'' = Some 5 \<and>
   balance (perform (UpdateUser (\<lambda>e. True) True admin0 ''u1'' (noBody\<lparr> b_points := Some 7 \<rparr>)) store0) ''u1''
     = Some 7"
proof -
  have d: "distinct (map u_id (users store0))"
    by (simp add: store0_def member0_def admin0_def)
  have a: "balance store0 ''a1'' = Some 100"
    by (simp add: balance_def findUserById_def store0_def member0_def admin0_def)
  have a': "balance (perform (AssignAdmin ''g1'' (Some ''a1'')) store0) ''a1'' = Some 100"
    by (simp add: assignAdmin_def given_def balance_def findUserById_def findGymById_def
          replaceUser_def store0_def member0_def admin0_def gym0_def ADMIN_def GYM_def USER_def)
  have ad: "isAdmin admin0" by (simp add: isAdmin_def admin0_def)
  have f: "findUserById (users store0) ''u1'' = Some member0" by (rule find_member0)
  have v: "validateUser (\<lambda>e. True) (updateFields admin0 member0 (noBody\<lparr> b_points := Some 7 \<rparr>)) = []"
    by (simp add: validateUser_def updateFields_def noBody_def given_def member0_def admin0_def
          isAdmin_def ROLES_def USER_def ADMIN_def SUPER_ADMIN_def GYM_def)
  have b: "b_points (noBody\<lparr> b_points := Some 7 \<rparr>) = Some 7" by simp
  have u: "balance store0 ''u1'' = Some 5"
    by (simp add: balance_def find_member0) (simp add: member0_def)
  from points_written_by_ledger_or_admin_update
         [where s = store0 and r = "AssignAdmin ''g1'' (Some ''a1'')" and i = "''a1''"
            and p = 100 and q = 100 and emailOk = "\<lambda>e. True" and errorsEmpty = True
            and reqUser = admin0 and userId = "''u1''" and body = "noBody\<lparr> b_points := Some 7 \<rparr>"
            and usr = member0 and v = 7 and j = "''u1''"]
       d a a' ad f v b u
  show ?thesis by simp
qed

end
